theory Spec2Isabelle
  imports Complex_Main
begin

section \<open>Conventions of the embedding\<close>

text \<open>
  The losses of \<^verbatim>\<open>model/loss/sim_loss.py\<close> and \<^verbatim>\<open>model/losses.py\<close> are numeric
  tensor code. Tensor entries are modelled as real numbers and every operation is the exact
  one (\<open>exp\<close>, \<open>ln\<close>, \<open>sqrt\<close> of \<open>Complex_Main\<close>): rounding is not part of the model.
  A float result that is infinite or not a number has no real value; where the code can
  produce one (a division by zero, the mean of no element) the model returns
  \<open>Inl NotFinite\<close> instead of a number. Python exceptions are the other values of \<open>error\<close>.
\<close>

datatype error =
    ZeroDivisionError
  | RuntimeError
  | AttributeError
  | ValueError string
  | Exception string
  | ConfigError
  | NotFinite
  | NotModelled

subsection \<open>Element type and device of a tensor\<close>

datatype dtype = Float16 | Float32 | Float64

datatype device = Cpu | Cuda nat

type_synonym ttype = "dtype \<times> device"

section \<open>\<^verbatim>\<open>MILossGaussian.__init__\<close>\<close>

text \<open>
  \<^verbatim>\<open>torch.linspace(start, end, steps)\<close>: \<open>steps\<close> points from \<open>start\<close> to \<open>end\<close>,
  both included; one step gives \<open>[start]\<close>, a negative number of steps raises.
\<close>

definition linspace :: "real \<Rightarrow> real \<Rightarrow> int \<Rightarrow> error + real list" where
  "linspace start end steps =
     (if steps < 0 then Inl RuntimeError
      else if steps = 1 then Inr [start]
      else Inr (map (\<lambda>i. start + real i * ((end - start) / real_of_int (steps - 1)))
                  [0..<nat steps]))"

text \<open>The buffer \<^verbatim>\<open>self.bins\<close>, of shape \<open>(num_bins, 1)\<close>: its type tag and its values.\<close>

record buffer =
  btype :: ttype
  bvals :: "real list"

record MILossGaussian =
  vmin :: real
  vmax :: real
  sigma :: real
  num_bins :: int
  bins :: buffer
  roi :: bool
  roi_threshold :: real
  normalised :: bool

text \<open>
  The constructor. \<^verbatim>\<open>(vmax - vmin) / num_bins\<close> is a Python float division, which raises
  \<^verbatim>\<open>ZeroDivisionError\<close> at zero. A new tensor is a 32-bit float tensor on the CPU.
\<close>

definition MILossGaussian_init ::
  "real \<Rightarrow> real \<Rightarrow> int \<Rightarrow> bool \<Rightarrow> real \<Rightarrow> bool \<Rightarrow> error + MILossGaussian" where
  "MILossGaussian_init vmin0 vmax0 num_bins0 roi0 roi_threshold0 normalised0 =
     (if num_bins0 = 0 then Inl ZeroDivisionError
      else
        let bin_width = (vmax0 - vmin0) / real_of_int num_bins0;
            sigma0 = bin_width * (1 / (2 * sqrt (2 * ln 2)))
        in case linspace vmin0 vmax0 num_bins0 of
             Inl e \<Rightarrow> Inl e
           | Inr bs \<Rightarrow>
               Inr \<lparr>vmin = vmin0, vmax = vmax0, sigma = sigma0, num_bins = num_bins0,
                    bins = \<lparr>btype = (Float32, Cpu), bvals = bs\<rparr>,
                    roi = roi0, roi_threshold = roi_threshold0, normalised = normalised0\<rparr>)"

section \<open>\<^verbatim>\<open>DLRegModel\<close>: selection of network and transformation\<close>

text \<open>
  The configuration object \<^verbatim>\<open>params\<close>, with the fields the constructor reads.
\<close>

record params =
  network :: string
  transformation :: string
  dim :: int
  enc_channels :: "int list"
  dec_channels :: "int list"
  out_channels :: int
  crop_size :: "int list"
  ffd_sigma :: "int list"

text \<open>
  The network and transformation classes live in \<^verbatim>\<open>model/networks\<close> and
  \<^verbatim>\<open>model/transformations\<close>, which are not part of the verified sources: their
  constructors are parameters, and each may raise.
\<close>

record ('n, 't) constructors =
  SiameseNet :: "error + 'n"
  UNet :: "int \<Rightarrow> int list \<Rightarrow> int list \<Rightarrow> int \<Rightarrow> error + 'n"
  SiameseNetFFD :: "error + 'n"
  FFDNet :: "int \<Rightarrow> int list \<Rightarrow> int list \<Rightarrow> int list \<Rightarrow> int \<Rightarrow> error + 'n"
  DVFTransform :: "error + 't"
  BSplineFFDTransform :: "int \<Rightarrow> int list \<Rightarrow> int list \<Rightarrow> error + 't"

record ('n, 't) DLRegModel =
  model_params :: params
  epoch_num :: int
  iter_num :: int
  is_best :: bool
  best_metric_result :: real
  model_network :: 'n
  model_transform :: 't

definition set_network :: "('n, 't) constructors \<Rightarrow> params \<Rightarrow> error + 'n" where
  "set_network C p =
     (if network p = ''SiameseNetDVF'' then SiameseNet C
      else if network p = ''UNetDVF''
        then UNet C (dim p) (enc_channels p) (dec_channels p) (out_channels p)
      else if network p = ''SiameseNetFFD'' then SiameseNetFFD C
      else if network p = ''FFDNet''
        then FFDNet C (dim p) (crop_size p) (ffd_sigma p) (enc_channels p) (out_channels p)
      else Inl (ValueError ''Model: Network not recognised''))"

definition set_transformation_model :: "('n, 't) constructors \<Rightarrow> params \<Rightarrow> error + 't" where
  "set_transformation_model C p =
     (if transformation p = ''DVF'' then DVFTransform C
      else if transformation p = ''FFD''
        then BSplineFFDTransform C (dim p) (crop_size p) (ffd_sigma p)
      else Inl (ValueError ''Model: Transformation model not recognised''))"

text \<open>\<^verbatim>\<open>DLRegModel.__init__\<close>: the network is set first, then the transformation.\<close>

definition DLRegModel_init ::
  "('n, 't) constructors \<Rightarrow> params \<Rightarrow> error + ('n, 't) DLRegModel" where
  "DLRegModel_init C p =
     (case set_network C p of
        Inl e \<Rightarrow> Inl e
      | Inr n \<Rightarrow>
          (case set_transformation_model C p of
             Inl e \<Rightarrow> Inl e
           | Inr t \<Rightarrow>
               Inr \<lparr>model_params = p, epoch_num = 0, iter_num = 0, is_best = False,
                    best_metric_result = 0, model_network = n, model_transform = t\<rparr>))"

section \<open>Huber regularisers (\<^verbatim>\<open>model/losses.py\<close>)\<close>

text \<open>
  A flow tensor of shape \<open>(N, C, H, W)\<close> is a list of samples, each a list of channels,
  each a list of rows. Sums over an axis add the slices entry by entry.
\<close>

type_synonym flow = "real list list list list"

definition vadd :: "real list \<Rightarrow> real list \<Rightarrow> real list" where
  "vadd = map2 (+)"

text \<open>\<^verbatim>\<open>torch.sum(a, dim=0)\<close> of a matrix: the entrywise sum of its rows.\<close>

definition sum_rows :: "real list list \<Rightarrow> real list" where
  "sum_rows a = (case a of [] \<Rightarrow> [] | r # rs \<Rightarrow> foldl vadd r rs)"

definition sum_mats :: "real list list list \<Rightarrow> real list list" where
  "sum_mats s = (case s of [] \<Rightarrow> [] | c # cs \<Rightarrow> foldl (map2 vadd) c cs)"

text \<open>
  \<^verbatim>\<open>torch.norm(flow, dim=1)\<close> on one sample \<open>(C, H, W)\<close>: the Euclidean norm over the
  channels, of shape \<open>(H, W)\<close>. (Without any channel the nested list keeps no shape; the
  norm is then a zero tensor, whose finite differences are empty or zero either way.)
\<close>

definition torch_norm_dim1 :: "real list list list \<Rightarrow> real list list" where
  "torch_norm_dim1 s = map (map sqrt) (sum_mats (map (map (map (\<lambda>v. v\<^sup>2))) s))"

text \<open>\<^verbatim>\<open>a[1:, :] - a[:-1, :]\<close> and \<^verbatim>\<open>a[:, 1:] - a[:, :-1]\<close> on one sample.\<close>

definition diff_rows :: "real list list \<Rightarrow> real list list" where
  "diff_rows a = map2 (map2 (-)) (tl a) (butlast a)"

definition diff_cols :: "real list list \<Rightarrow> real list list" where
  "diff_cols a = map (\<lambda>r. map2 (-) (tl r) (butlast r)) a"

text \<open>\<^verbatim>\<open>torch.mean\<close> of a vector; the mean of no element is not a number.\<close>

definition mean_list :: "real list \<Rightarrow> error + real" where
  "mean_list xs = (if xs = [] then Inl NotFinite else Inr (sum_list xs / real (length xs)))"

definition huber_loss_spatial :: "flow \<Rightarrow> error + real" where
  "huber_loss_spatial flow =
     (let eps = 1 / 100;
          flow_norm = map torch_norm_dim1 flow;
          flow_norm_dx = map diff_rows flow_norm;
          flow_norm_dy = map diff_cols flow_norm;
          spatial_huber_loss =
            map2 (map2 (map2 (\<lambda>dx dy. dx\<^sup>2 + dy\<^sup>2)))
              (map (map butlast) flow_norm_dx) (map butlast flow_norm_dy);
          spatial_huber_loss = map (\<lambda>a. sqrt (eps + sum_list (sum_rows a))) spatial_huber_loss
      in mean_list spatial_huber_loss)"

definition sumsq :: "real list list \<Rightarrow> real" where
  "sumsq a = (\<Sum>r\<leftarrow>a. \<Sum>d\<leftarrow>r. d\<^sup>2)"

definition huber_loss_temporal :: "flow \<Rightarrow> real" where
  "huber_loss_temporal flow =
     (let eps = 1 / 100;
          flow_norm = map torch_norm_dim1 flow;
          flow_norm_dt = map2 (map2 (map2 (-))) (tl flow_norm) (butlast flow_norm)
      in sqrt (eps + (\<Sum>a\<leftarrow>flow_norm_dt. sumsq a)))"

text \<open>
  A field that is constant over the spatial axes: sample \<open>n\<close>, channel \<open>c\<close> holds the value
  \<open>ks ! n ! c\<close> at each of its \<open>H \<times> W\<close> positions.
\<close>

definition constant_field :: "real list list \<Rightarrow> nat \<Rightarrow> nat \<Rightarrow> flow" where
  "constant_field ks H W = map (map (\<lambda>k. replicate H (replicate W k))) ks"

definition nonneg_rows :: "real list list \<Rightarrow> bool" where
  "nonneg_rows a = (\<forall>r\<in>set a. \<forall>v\<in>set r. 0 \<le> v)"

section \<open>\<^verbatim>\<open>MILossGaussian\<close>: joint probability and loss\<close>

text \<open>
  An image tensor of shape \<open>(N, 1, *size)\<close>: its type tag and, for each of the \<open>N\<close>
  samples, the voxels of its single channel in row-major order. Flattening the spatial axes
  (\<^verbatim>\<open>x.flatten(start_dim=2, end_dim=-1)\<close>) keeps this list as it is.
\<close>

record tensor =
  ttype :: ttype
  tvals :: "real list list"

text \<open>
  \<^verbatim>\<open>b.type_as(x)\<close> casts the buffer to the element type and device of \<open>x\<close>. In exact
  arithmetic the cast keeps every value; what changes is the tag.
\<close>

definition type_as :: "buffer \<Rightarrow> tensor \<Rightarrow> buffer" where
  "type_as b x = b\<lparr>btype := ttype x\<rparr>"

text \<open>
  The Parzen window response of one sample, of shape \<open>(#bins, K)\<close>:
  \<^verbatim>\<open>torch.exp(-(x - self.bins) ** 2 / (2 * self.sigma ** 2)) / math.sqrt(2 * math.pi) * self.sigma\<close>.
\<close>

definition parzen :: "real \<Rightarrow> real list \<Rightarrow> real list \<Rightarrow> real list list" where
  "parzen sg bs xs =
     map (\<lambda>b. map (\<lambda>v. exp (- (v - b)\<^sup>2 / (2 * sg\<^sup>2)) / sqrt (2 * pi) * sg) xs) bs"

text \<open>One sample of \<^verbatim>\<open>win_x.bmm(win_y.transpose(1, 2))\<close>: entry \<open>(i, j)\<close> is the inner
  product of row \<open>i\<close> of \<open>win_x\<close> and row \<open>j\<close> of \<open>win_y\<close>.\<close>

definition dot :: "real list \<Rightarrow> real list \<Rightarrow> real" where
  "dot r q = (\<Sum>(a, b)\<leftarrow>zip r q. a * b)"

definition bmm_transpose :: "real list list \<Rightarrow> real list list \<Rightarrow> real list list" where
  "bmm_transpose wx wy = map (\<lambda>rx. map (\<lambda>ry. dot rx ry) wy) wx"

text \<open>The sum of all entries of a matrix, and the normalisation of one joint histogram.\<close>

definition total :: "real list list \<Rightarrow> real" where
  "total h = sum_list (concat h)"

definition normalise_hist :: "real list list \<Rightarrow> real list list" where
  "normalise_hist h = (let hist_norm = total h + 1 / 10 ^ 10 in map (map (\<lambda>v. v / hist_norm)) h)"

definition joint_prob_sample :: "real \<Rightarrow> real list \<Rightarrow> real list \<Rightarrow> real list \<Rightarrow> real list list" where
  "joint_prob_sample sg bs xs ys = normalise_hist (bmm_transpose (parzen sg bs xs) (parzen sg bs ys))"

text \<open>
  With \<open>sigma = 0\<close> the exponent of a voxel that sits exactly on a bin centre is \<open>0/0\<close>, so
  the response, the histogram and the table of that sample are not numbers. (Off the bin
  centres the exponent is \<open>-inf\<close> and the response \<open>0\<close>, which is also what the formula
  above gives, since it multiplies by \<open>sigma\<close>.)
\<close>

definition on_bin_centre :: "real list \<Rightarrow> real list list \<Rightarrow> bool" where
  "on_bin_centre bs xss = (\<exists>xs\<in>set xss. \<exists>v\<in>set xs. v \<in> set bs)"

text \<open>
  \<^verbatim>\<open>_compute_joint_prob\<close>: first the assignment to \<^verbatim>\<open>self.bins\<close>, then the table.
  \<^verbatim>\<open>bmm\<close> raises unless both operands have the same batch size and the same number of
  voxels. The result is the table of every sample and the module after the call.
\<close>

definition same_shape :: "real list list \<Rightarrow> real list list \<Rightarrow> bool" where
  "same_shape xss yss = (map length xss = map length yss)"

definition compute_joint_prob ::
  "MILossGaussian \<Rightarrow> tensor \<Rightarrow> tensor \<Rightarrow> (error + real list list list) \<times> MILossGaussian" where
  "compute_joint_prob m x y =
     (let m' = m\<lparr>bins := type_as (bins m) x\<rparr>;
          bs = bvals (bins m')
      in if \<not> same_shape (tvals x) (tvals y) then (Inl RuntimeError, m')
         else if sigma m' = 0 \<and> (on_bin_centre bs (tvals x) \<or> on_bin_centre bs (tvals y))
           then (Inl NotFinite, m')
         else (Inr (map2 (joint_prob_sample (sigma m') bs) (tvals x) (tvals y)), m'))"

text \<open>
  The region-of-interest branch of \<open>forward\<close>. \<^verbatim>\<open>avg_filtering\<close> (of \<^verbatim>\<open>utils/image.py\<close>,
  not part of the verified sources) is a parameter \<open>avg\<close>, applied to the values and the
  filter size. \<^verbatim>\<open>torch.masked_select\<close> lists the selected entries of the whole tensor in
  row-major order, so over all samples; the two \<^verbatim>\<open>unsqueeze(0)\<close> make it one sample.
  Inputs or a mask of different shapes would be broadcast or rejected by torch; the model
  does not cover them and answers \<open>NotModelled\<close>.
\<close>

definition masked_select :: "real list list \<Rightarrow> bool list list \<Rightarrow> real list" where
  "masked_select xss msk = map fst (filter snd (zip (concat xss) (concat msk)))"

definition roi_select ::
  "(real list list \<Rightarrow> nat \<Rightarrow> real list list) \<Rightarrow> MILossGaussian \<Rightarrow> tensor \<Rightarrow> tensor
     \<Rightarrow> error + tensor \<times> tensor" where
  "roi_select avg m x y =
     (if \<not> same_shape (tvals x) (tvals y) then Inl NotModelled
      else
        let img_avg = map2 (map2 (\<lambda>a b. (a + b) / 2)) (tvals x) (tvals y);
            img_avg_smooth = avg img_avg 7;
            roi_mask = map (map (\<lambda>v. v > roi_threshold m)) img_avg_smooth
        in if \<not> same_shape img_avg_smooth (tvals x) then Inl NotModelled
           else Inr (x\<lparr>tvals := [masked_select (tvals x) roi_mask]\<rparr>,
                     y\<lparr>tvals := [masked_select (tvals y) roi_mask]\<rparr>))"

text \<open>The entropy terms of \<open>forward\<close>, for one sample.\<close>

definition plogp :: "real \<Rightarrow> real" where
  "plogp p = p * ln (p + 1 / 10 ^ 10)"

definition ent_vec :: "real list \<Rightarrow> real" where
  "ent_vec p = - sum_list (map plogp p)"

definition ent_mat :: "real list list \<Rightarrow> real" where
  "ent_mat p = - sum_list (map (\<lambda>r. sum_list (map plogp r)) p)"

text \<open>
  The last step of \<open>forward\<close>: the negated mean over the batch. A quotient by a zero joint
  entropy is infinite or not a number, and so is then the mean.
\<close>

definition mi_reduce :: "bool \<Rightarrow> real list \<Rightarrow> real list \<Rightarrow> real list \<Rightarrow> error + real" where
  "mi_reduce nrm ent_x ent_y ent_joint =
     (if nrm then
        (if 0 \<in> set ent_joint then Inl NotFinite
         else case mean_list (map2 (\<lambda>(ex, ey) ej. (ex + ey) / ej) (zip ent_x ent_y) ent_joint) of
                Inl e \<Rightarrow> Inl e | Inr v \<Rightarrow> Inr (- v))
      else
        (case mean_list (map2 (\<lambda>(ex, ey) ej. ex + ey - ej) (zip ent_x ent_y) ent_joint) of
           Inl e \<Rightarrow> Inl e | Inr v \<Rightarrow> Inr (- v)))"

definition mi_entropies :: "bool \<Rightarrow> real list list list \<Rightarrow> error + real" where
  "mi_entropies nrm p_joint =
     (let p_x = map (map sum_list) p_joint;
          p_y = map sum_rows p_joint;
          ent_x = map ent_vec p_x;
          ent_y = map ent_vec p_y;
          ent_joint = map ent_mat p_joint
      in mi_reduce nrm ent_x ent_y ent_joint)"

text \<open>\<^verbatim>\<open>MILossGaussian.forward\<close>: the loss, or the exception, and the module after the call.\<close>

definition forward ::
  "(real list list \<Rightarrow> nat \<Rightarrow> real list list) \<Rightarrow> MILossGaussian \<Rightarrow> tensor \<Rightarrow> tensor
     \<Rightarrow> (error + real) \<times> MILossGaussian" where
  "forward avg m x y =
     (case (if roi m then roi_select avg m x y else Inr (x, y)) of
        Inl e \<Rightarrow> (Inl e, m)
      | Inr (x', y') \<Rightarrow>
          (case compute_joint_prob m x' y' of
             (Inl e, m') \<Rightarrow> (Inl e, m')
           | (Inr p_joint, m') \<Rightarrow> (mi_entropies (normalised m') p_joint, m')))"


text \<open>The module built with the default arguments, \<^verbatim>\<open>MILossGaussian()\<close>.\<close>

definition default_MILossGaussian :: MILossGaussian where
  "default_MILossGaussian =
     \<lparr>vmin = 0, vmax = 1, sigma = 1 / 64 * (1 / (2 * sqrt (2 * ln 2))), num_bins = 64,
      bins = \<lparr>btype = (Float32, Cpu), bvals = map (\<lambda>i. real i * (1 / 63)) [0..<64]\<rparr>,
      roi = False, roi_threshold = 1 / 10000, normalised = True\<rparr>"


section \<open>The mutual information loss as the specification words it\<close>

text \<open>
  The specification's steps 6 to 8, written from its words over one joint probability table
  \<open>p\<close> of \<open>B \<times> B\<close> entries (rows: target bins, columns: source bins): the marginals are sums
  over the other index, the entropies use the logarithm guarded by \<open>1e-10\<close>, and the loss
  is the negated batch mean of \<open>(H_target + H_source) / H_joint\<close> if normalised, of
  \<open>H_target + H_source - H_joint\<close> otherwise.
\<close>

definition spec_target_marginal :: "real list list \<Rightarrow> real list" where
  "spec_target_marginal p = map (\<lambda>i. \<Sum>j\<leftarrow>[0..<length p]. p ! i ! j) [0..<length p]"

definition spec_source_marginal :: "real list list \<Rightarrow> real list" where
  "spec_source_marginal p = map (\<lambda>j. \<Sum>i\<leftarrow>[0..<length p]. p ! i ! j) [0..<length p]"

definition spec_entropy :: "real list \<Rightarrow> real" where
  "spec_entropy q = - (\<Sum>v\<leftarrow>q. v * ln (v + 1 / 10 ^ 10))"

definition spec_joint_entropy :: "real list list \<Rightarrow> real" where
  "spec_joint_entropy p =
     - (\<Sum>i\<leftarrow>[0..<length p]. \<Sum>j\<leftarrow>[0..<length p]. p ! i ! j * ln (p ! i ! j + 1 / 10 ^ 10))"

definition spec_mi_score :: "bool \<Rightarrow> real list list \<Rightarrow> real" where
  "spec_mi_score nrm p =
     (let H_target = spec_entropy (spec_target_marginal p);
          H_source = spec_entropy (spec_source_marginal p);
          H_joint = spec_joint_entropy p
      in if nrm then (H_target + H_source) / H_joint else H_target + H_source - H_joint)"

definition spec_mi_loss :: "bool \<Rightarrow> real list list list \<Rightarrow> error + real" where
  "spec_mi_loss nrm P =
     (if P = [] \<or> (nrm \<and> (\<exists>p\<in>set P. spec_joint_entropy p = 0)) then Inl NotFinite
      else Inr (- (sum_list (map (spec_mi_score nrm) P) / real (length P))))"

text \<open>A table with as many columns in each row as it has rows.\<close>

definition square :: "real list list \<Rightarrow> bool" where
  "square p = (\<forall>r\<in>set p. length r = length p)"


section \<open>\<^verbatim>\<open>MILossBSpline\<close>\<close>

text \<open>
  A tensor that debug mode stores on the module: its entries, or the mark that some of them
  are infinite or not numbers (a quotient by zero), which the real-valued model cannot hold.
\<close>

datatype 'a stored = Values 'a | NotNumbers

record MILossBSpline =
  debug :: bool
  normalised_bs :: bool
  window :: string
  target_min :: real
  target_max :: real
  source_min :: real
  source_max :: real
  bin_width_target :: real
  bin_width_source :: real
  bins_target :: buffer
  bins_source :: buffer
  eps_target :: real
  eps_source :: real
  histogram_joint :: "real list list list stored option"
  p_joint :: "real list list list stored option"
  p_target :: "real list list stored option"
  p_source :: "real list list stored option"

text \<open>
  The constructor. The four debug attributes are created (as \<^verbatim>\<open>None\<close>) only in debug
  mode; \<open>None\<close> stands for both an absent attribute and one that holds \<^verbatim>\<open>None\<close>.
  \<^verbatim>\<open>torch.arange(n)\<close> raises for negative \<open>n\<close>.
\<close>

definition MILossBSpline_init ::
  "real \<Rightarrow> real \<Rightarrow> real \<Rightarrow> real \<Rightarrow> int \<Rightarrow> int \<Rightarrow> real \<Rightarrow> real \<Rightarrow> bool \<Rightarrow> string \<Rightarrow> bool
     \<Rightarrow> error + MILossBSpline" where
  "MILossBSpline_init tmin tmax smin smax num_bins_target num_bins_source c_target c_source
       nrm win dbg =
     (if num_bins_target = 0 \<or> num_bins_source = 0 then Inl ZeroDivisionError
      else if num_bins_target < 0 \<or> num_bins_source < 0 then Inl RuntimeError
      else
        let bwt = (tmax - tmin) / real_of_int num_bins_target;
            bws = (smax - smin) / real_of_int num_bins_source
        in Inr \<lparr>debug = dbg, normalised_bs = nrm, window = win,
                target_min = tmin, target_max = tmax, source_min = smin, source_max = smax,
                bin_width_target = bwt, bin_width_source = bws,
                bins_target = \<lparr>btype = (Float32, Cpu),
                   bvals = map (\<lambda>i. real i * bwt + tmin) [0..<nat num_bins_target]\<rparr>,
                bins_source = \<lparr>btype = (Float32, Cpu),
                   bvals = map (\<lambda>i. real i * bws + smin) [0..<nat num_bins_source]\<rparr>,
                eps_target = c_target * bwt, eps_source = c_source * bws,
                histogram_joint = None, p_joint = None, p_target = None, p_source = None\<rparr>)"






text \<open>The module \<^verbatim>\<open>MILossBSpline(debug=True)\<close>, all other arguments at their defaults.\<close>

definition debug_MILossBSpline :: MILossBSpline where
  "debug_MILossBSpline =
     \<lparr>debug = True, normalised_bs = True, window = ''cubic_bspline'',
      target_min = 0, target_max = 1, source_min = 0, source_max = 1,
      bin_width_target = 1 / 32, bin_width_source = 1 / 32,
      bins_target = \<lparr>btype = (Float32, Cpu), bvals = map (\<lambda>i. real i * (1 / 32) + 0) [0..<32]\<rparr>,
      bins_source = \<lparr>btype = (Float32, Cpu), bvals = map (\<lambda>i. real i * (1 / 32) + 0) [0..<32]\<rparr>,
      eps_target = 1 * (1 / 32), eps_source = 1 * (1 / 32),
      histogram_joint = None, p_joint = None, p_target = None, p_source = None\<rparr>"




section \<open>\<^verbatim>\<open>LNCCLoss\<close>\<close>

text \<open>
  The local cross-correlation works on tensors of any rank: a tensor is its shape and the
  entry at each index (a list with one position per axis). The entries are listed in
  row-major order by \<open>indices\<close>.
\<close>

record volume =
  vshape :: "nat list"
  vat :: "nat list \<Rightarrow> real"

fun indices :: "nat list \<Rightarrow> nat list list" where
  "indices [] = [[]]"
| "indices (n # ns) = concat (map (\<lambda>i. map ((#) i) (indices ns)) [0..<n])"

definition vmul :: "volume \<Rightarrow> volume \<Rightarrow> volume" where
  "vmul a b = \<lparr>vshape = vshape a, vat = (\<lambda>i. vat a i * vat b i)\<rparr>"

definition ones :: "nat list \<Rightarrow> volume" where
  "ones sh = \<lparr>vshape = sh, vat = (\<lambda>i. 1)\<rparr>"

text \<open>\<^verbatim>\<open>torch.mean\<close> over all entries of a tensor.\<close>

definition vmean :: "volume \<Rightarrow> error + real" where
  "vmean v = mean_list (map (vat v) (indices (vshape v)))"

text \<open>
  The input of a convolution, padded with zeros: \<open>j\<close> is a position of the padded spatial
  grid of sample \<open>n\<close>, channel \<open>c\<close>.
\<close>

definition in_bounds :: "nat list \<Rightarrow> nat list \<Rightarrow> nat list \<Rightarrow> bool" where
  "in_bounds sp p j = list_all (\<lambda>(ji, pi, si). pi \<le> ji \<and> ji < pi + si) (zip j (zip p sp))"

definition pad_at :: "volume \<Rightarrow> nat list \<Rightarrow> nat \<Rightarrow> nat \<Rightarrow> nat list \<Rightarrow> real" where
  "pad_at v p n c j =
     (if in_bounds (drop 2 (vshape v)) p j then vat v (n # c # map2 (-) j p) else 0)"

text \<open>
  \<^verbatim>\<open>F.conv1d\<close>, \<^verbatim>\<open>F.conv2d\<close>, \<^verbatim>\<open>F.conv3d\<close> (cross-correlation, no bias, one group, no
  dilation) for \<open>ndim\<close> spatial axes: input of shape \<open>(N, C, *sp)\<close>, weight of shape
  \<open>(Co, C, *ks)\<close>. The call raises when the ranks or the channels do not fit, when an axis
  is empty, or when the kernel is larger than the padded input. Entry \<open>(n, oc, idx)\<close> of
  the result sums, over the input channels and the kernel offsets, the weight times the
  padded input at \<open>idx * stride + off\<close>.
\<close>

definition conv_entry ::
  "volume \<Rightarrow> volume \<Rightarrow> nat list \<Rightarrow> nat list \<Rightarrow> nat \<Rightarrow> nat list \<Rightarrow> nat list \<Rightarrow> real" where
  "conv_entry inp wt stride padding C ks i =
     (case i of
        n # oc # idx \<Rightarrow>
          (\<Sum>c\<leftarrow>[0..<C]. \<Sum>off\<leftarrow>indices ks.
             vat wt (oc # c # off)
             * pad_at inp padding n c (map2 (+) (map2 (\<lambda>i st. i * st) idx stride) off))
      | _ \<Rightarrow> 0)"

definition conv_nd ::
  "nat \<Rightarrow> volume \<Rightarrow> volume \<Rightarrow> nat list \<Rightarrow> nat list \<Rightarrow> error + volume" where
  "conv_nd ndim inp wt stride padding =
     (case (vshape inp, vshape wt) of
        (N # C # sp, Co # Ci # ks) \<Rightarrow>
          if length sp \<noteq> ndim \<or> length ks \<noteq> ndim \<or> length stride \<noteq> ndim
             \<or> length padding \<noteq> ndim \<or> C \<noteq> Ci then Inl RuntimeError
          else if C = 0 \<or> 0 \<in> set sp \<or> 0 \<in> set ks \<or> 0 \<in> set stride then Inl RuntimeError
          else if \<exists>(s, p, k)\<in>set (zip sp (zip padding ks)). s + 2 * p < k then Inl RuntimeError
          else Inr \<lparr>vshape = N # Co # map (\<lambda>(s, p, k, st). (s + 2 * p - k) div st + 1)
                                        (zip sp (zip padding (zip ks stride))),
                    vat = conv_entry inp wt stride padding C ks\<rparr>
      | _ \<Rightarrow> Inl RuntimeError)"

text \<open>\<^verbatim>\<open>getattr(F, f'conv{dim}d')\<close>: the attribute exists for one, two and three axes.\<close>

definition conv_fn ::
  "int \<Rightarrow> error + (volume \<Rightarrow> volume \<Rightarrow> nat list \<Rightarrow> nat list \<Rightarrow> error + volume)" where
  "conv_fn ndim = (if ndim \<in> {1, 2, 3} then Inr (conv_nd (nat ndim)) else Inl AttributeError)"

datatype window_spec = Scalar int | Tuple "int list"

record LNCCLoss =
  window_size :: window_spec

text \<open>
  Modelled from the spec: \<^verbatim>\<open>param_dim_setup\<close> of \<^verbatim>\<open>utils/misc.py\<close> is not part of the
  verified sources. The specification gives the window size as a scalar or an explicit
  tuple, matched to the spatial rank of the input at call time: a scalar is repeated for
  every axis, and a tuple of another length is a configuration error.
\<close>

definition param_dim_setup :: "window_spec \<Rightarrow> int \<Rightarrow> error + int list" where
  "param_dim_setup ws ndim =
     (case ws of
        Scalar w \<Rightarrow> Inr (replicate (nat ndim) w)
      | Tuple l \<Rightarrow> if int (length l) = ndim then Inr l else Inl ConfigError)"

definition then_do :: "error + 'a \<Rightarrow> ('a \<Rightarrow> error + 'b) \<Rightarrow> error + 'b" where
  "then_do r f = (case r of Inl e \<Rightarrow> Inl e | Inr v \<Rightarrow> f v)"

text \<open>The score map \<^verbatim>\<open>cov * cov / (tar_var * src_var + 1e-5)\<close> from the five local sums.\<close>

definition lncc_map ::
  "real \<Rightarrow> volume \<Rightarrow> volume \<Rightarrow> volume \<Rightarrow> volume \<Rightarrow> volume \<Rightarrow> volume" where
  "lncc_map window_num_points tar_sum src_sum tar2_sum src2_sum tar_src_sum =
     \<lparr>vshape = vshape tar_sum,
      vat = (\<lambda>i.
        let mu_tar = vat tar_sum i / window_num_points;
            mu_src = vat src_sum i / window_num_points;
            cov = vat tar_src_sum i - mu_src * vat tar_sum i - mu_tar * vat src_sum i
                    + mu_tar * mu_src * window_num_points;
            tar_var = vat tar2_sum i - 2 * mu_tar * vat tar_sum i
                    + mu_tar * mu_tar * window_num_points;
            src_var = vat src2_sum i - 2 * mu_src * vat src_sum i
                    + mu_src * mu_src * window_num_points
        in cov * cov / (tar_var * src_var + 1 / 10 ^ 5))\<rparr>"

text \<open>Where a score divides by zero: such an entry is infinite or not a number.\<close>

definition lncc_undefined ::
  "real \<Rightarrow> volume \<Rightarrow> volume \<Rightarrow> volume \<Rightarrow> volume \<Rightarrow> bool" where
  "lncc_undefined window_num_points tar_sum src_sum tar2_sum src2_sum =
     (window_num_points = 0 \<or>
      (\<exists>i\<in>set (indices (vshape tar_sum)).
         let mu_tar = vat tar_sum i / window_num_points;
             mu_src = vat src_sum i / window_num_points;
             tar_var = vat tar2_sum i - 2 * mu_tar * vat tar_sum i
                     + mu_tar * mu_tar * window_num_points;
             src_var = vat src2_sum i - 2 * mu_src * vat src_sum i
                     + mu_src * mu_src * window_num_points
         in tar_var * src_var + 1 / 10 ^ 5 = 0))"

text \<open>
  \<^verbatim>\<open>LNCCLoss.forward\<close>. Inputs of different shapes would be broadcast or rejected by torch;
  the model does not cover them. \<^verbatim>\<open>torch.ones\<close> raises for a negative extent.
\<close>

definition LNCC_forward :: "LNCCLoss \<Rightarrow> volume \<Rightarrow> volume \<Rightarrow> error + real" where
  "LNCC_forward m tar src =
     (if vshape tar \<noteq> vshape src then Inl NotModelled
      else
        let tar2 = vmul tar tar;
            src2 = vmul src src;
            tar_src = vmul tar src;
            ndim = int (length (vshape tar)) - 2
        in then_do (param_dim_setup (window_size m) ndim) (\<lambda>window_size.
             if \<exists>w\<in>set window_size. w < 0 then Inl RuntimeError
             else
               let sum_filt = ones (1 # 1 # map nat window_size);
                   stride = replicate (nat ndim) 1;
                   padding = map (\<lambda>w. nat (w div 2)) window_size
               in then_do (conv_fn ndim) (\<lambda>conv.
                  then_do (conv tar sum_filt stride padding) (\<lambda>tar_sum.
                  then_do (conv src sum_filt stride padding) (\<lambda>src_sum.
                  then_do (conv tar2 sum_filt stride padding) (\<lambda>tar2_sum.
                  then_do (conv src2 sum_filt stride padding) (\<lambda>src2_sum.
                  then_do (conv tar_src sum_filt stride padding) (\<lambda>tar_src_sum.
                    let window_num_points = real_of_int (prod_list window_size)
                    in if lncc_undefined window_num_points tar_sum src_sum tar2_sum src2_sum
                       then Inl NotFinite
                       else then_do (vmean (lncc_map window_num_points tar_sum src_sum
                                              tar2_sum src2_sum tar_src_sum))
                              (\<lambda>v. Inr (- v))))))))))"

section \<open>The local cross-correlation as the specification words it\<close>

text \<open>
  The local sum of \<open>g\<close> at position \<open>idx\<close> of sample \<open>n\<close>: a box filter with unit weights
  over a window of \<open>w\<close> positions per axis, stride one, the input padded with
  \<open>floor (w / 2)\<close> zeros on both sides of each axis. \<open>window_value\<close> is the padded
  input at offset \<open>off\<close> of the window.
\<close>

definition window_value ::
  "nat list \<Rightarrow> nat list \<Rightarrow> (nat list \<Rightarrow> real) \<Rightarrow> nat \<Rightarrow> nat list \<Rightarrow> nat list \<Rightarrow> real" where
  "window_value sp w g n idx off =
     (let j = map2 (+) idx off
      in if in_bounds sp (map (\<lambda>k. k div 2) w) j
         then g (n # 0 # map2 (-) j (map (\<lambda>k. k div 2) w)) else 0)"

definition spec_local_sum ::
  "nat list \<Rightarrow> nat list \<Rightarrow> (nat list \<Rightarrow> real) \<Rightarrow> nat \<Rightarrow> nat list \<Rightarrow> real" where
  "spec_local_sum sp w g n idx = (\<Sum>off\<leftarrow>indices w. window_value sp w g n idx off)"

definition spec_lncc_score ::
  "nat list \<Rightarrow> nat list \<Rightarrow> (nat list \<Rightarrow> real) \<Rightarrow> (nat list \<Rightarrow> real) \<Rightarrow> nat \<Rightarrow> nat list \<Rightarrow> real" where
  "spec_lncc_score sp w t s n idx =
     (let N = real (prod_list w);
          St = spec_local_sum sp w t n idx;
          Ss = spec_local_sum sp w s n idx;
          Stt = spec_local_sum sp w (\<lambda>i. t i * t i) n idx;
          Sss = spec_local_sum sp w (\<lambda>i. s i * s i) n idx;
          Sts = spec_local_sum sp w (\<lambda>i. t i * s i) n idx;
          mu_t = St / N;
          mu_s = Ss / N;
          cov = Sts - mu_s * St - mu_t * Ss + mu_t * mu_s * N;
          var_t = Stt - 2 * mu_t * St + mu_t * mu_t * N;
          var_s = Sss - 2 * mu_s * Ss + mu_s * mu_s * N
      in cov\<^sup>2 / (var_t * var_s + 1 / 10 ^ 5))"

text \<open>
  The positions of the score map of one sample (one more than the input per axis with an even
  window), and the loss: the negated mean of the score over all positions and samples.
\<close>

definition spec_positions :: "nat list \<Rightarrow> nat list \<Rightarrow> nat list" where
  "spec_positions sp w = map2 (\<lambda>s k. s + 2 * (k div 2) - k + 1) sp w"

definition spec_lncc_loss ::
  "nat \<Rightarrow> nat list \<Rightarrow> nat list \<Rightarrow> (nat list \<Rightarrow> real) \<Rightarrow> (nat list \<Rightarrow> real) \<Rightarrow> real" where
  "spec_lncc_loss N sp w t s =
     - ((\<Sum>n\<leftarrow>[0..<N]. \<Sum>idx\<leftarrow>indices (spec_positions sp w). spec_lncc_score sp w t s n idx)
        / real (N * prod_list (spec_positions sp w)))"

section \<open>Properties of the constructors\<close>

subsection \<open>Kernel bandwidth and bin centres\<close>

lemma fwhm_factor: "2 * sqrt (2 * ln 2) * (b * (1 / (2 * sqrt (2 * ln 2)))) = (b::real)"
proof -
  have "0 < ln (2::real)" by simp
  then have "sqrt (2 * ln 2) \<noteq> (0::real)" by simp
  then show ?thesis by simp
qed

lemma linspace_positive:
  assumes "0 < n"
  shows "\<exists>bs. linspace a b n = Inr bs \<and> length bs = nat n
           \<and> (\<forall>i<nat n. bs ! i = a + real i * ((b - a) / real_of_int (n - 1)))"
proof (cases "n = 1")
  case True
  then show ?thesis by (simp add: linspace_def)
next
  case False
  with assms show ?thesis by (simp add: linspace_def)
qed

lemma forward_keeps_sigma: "sigma (snd (forward avg m x y)) = sigma m"
  by (simp add: forward_def compute_joint_prob_def Let_def split: sum.splits prod.splits)

text \<open>
  Claim C6. For a positive number of bins the constructor returns a module whose
  \<open>sigma\<close> is computed from \<open>vmin\<close>, \<open>vmax\<close> and \<open>num_bins\<close> alone (the constructor has
  no argument for it, and no call of \<open>forward\<close> changes it), such that the full width at
  half maximum \<open>2 * sqrt (2 * ln 2) * sigma\<close> is the bin width \<open>(vmax - vmin) / num_bins\<close>;
  the \<open>num_bins\<close> bin centres are equally spaced, the first at \<open>vmin\<close> and, from two bins
  on, the last at \<open>vmax\<close>.
\<close>

theorem init_sigma_fwhm:
  assumes "0 < nb"
  shows "\<exists>m. MILossGaussian_init lo hi nb r th nrm = Inr m
           \<and> sigma m = (hi - lo) / real_of_int nb * (1 / (2 * sqrt (2 * ln 2)))
           \<and> 2 * sqrt (2 * ln 2) * sigma m = (hi - lo) / real_of_int nb
           \<and> (\<forall>avg x y. sigma (snd (forward avg m x y)) = sigma m)
           \<and> length (bvals (bins m)) = nat nb
           \<and> (\<forall>i<nat nb. bvals (bins m) ! i = lo + real i * ((hi - lo) / real_of_int (nb - 1)))
           \<and> bvals (bins m) ! 0 = lo
           \<and> (2 \<le> nb \<longrightarrow> bvals (bins m) ! (nat nb - 1) = hi)"
proof -
  from linspace_positive [OF assms, of lo hi] obtain bs where
    bs: "linspace lo hi nb = Inr bs" "length bs = nat nb"
        "\<forall>i<nat nb. bs ! i = lo + real i * ((hi - lo) / real_of_int (nb - 1))"
    by blast
  define m where "m = \<lparr>vmin = lo, vmax = hi,
      sigma = (hi - lo) / real_of_int nb * (1 / (2 * sqrt (2 * ln 2))), num_bins = nb,
      bins = \<lparr>btype = (Float32, Cpu), bvals = bs\<rparr>,
      roi = r, roi_threshold = th, normalised = nrm\<rparr>"
  have init: "MILossGaussian_init lo hi nb r th nrm = Inr m"
    using assms bs(1) by (simp add: MILossGaussian_init_def m_def)
  have first: "bs ! 0 = lo" using bs(3) assms by simp
  have last: "bs ! (nat nb - 1) = hi" if "2 \<le> nb"
  proof -
    have "nat nb - 1 < nat nb" using that by simp
    then have "bs ! (nat nb - 1) = lo + real (nat nb - 1) * ((hi - lo) / real_of_int (nb - 1))"
      using bs(3) by blast
    moreover have "real (nat nb - 1) = real_of_int (nb - 1)" using that by (simp add: of_nat_diff)
    moreover have "real_of_int (nb - 1) \<noteq> 0" using that by simp
    ultimately show ?thesis by simp
  qed
  have fwhm: "2 * sqrt (2 * ln 2) * sigma m = (hi - lo) / real_of_int nb"
    using fwhm_factor [of "(hi - lo) / real_of_int nb"] by (simp add: m_def)
  have rest: "sigma m = (hi - lo) / real_of_int nb * (1 / (2 * sqrt (2 * ln 2)))"
    "length (bvals (bins m)) = nat nb"
    "\<forall>i<nat nb. bvals (bins m) ! i = lo + real i * ((hi - lo) / real_of_int (nb - 1))"
    "bvals (bins m) ! 0 = lo" "2 \<le> nb \<longrightarrow> bvals (bins m) ! (nat nb - 1) = hi"
    using bs(2,3) first last by (simp_all add: m_def)
  from init fwhm rest forward_keeps_sigma show ?thesis by blast
qed

theorem init_sigma_fwhm_witness:
  "\<exists>m. MILossGaussian_init 0 1 64 False (1/10000) True = Inr m
     \<and> 2 * sqrt (2 * ln 2) * sigma m = 1 / 64
     \<and> length (bvals (bins m)) = 64
     \<and> bvals (bins m) ! 0 = 0 \<and> bvals (bins m) ! 63 = 1"
proof -
  have nb: "(0::int) < 64" by simp
  from init_sigma_fwhm [OF nb, of 0 1 False "1/10000" True] obtain m where
    "MILossGaussian_init 0 1 64 False (1/10000) True = Inr m"
    "2 * sqrt (2 * ln 2) * sigma m = (1 - 0) / real_of_int 64"
    "length (bvals (bins m)) = nat 64"
    "bvals (bins m) ! 0 = 0" "2 \<le> (64::int) \<longrightarrow> bvals (bins m) ! (nat 64 - 1) = 1"
    by blast
  then show ?thesis by (intro exI [of _ m]) simp
qed

subsection \<open>Unknown network and transformation names\<close>

lemma set_network_unknown:
  assumes "network p \<notin> {''SiameseNetDVF'', ''UNetDVF'', ''SiameseNetFFD'', ''FFDNet''}"
  shows "set_network C p = Inl (ValueError ''Model: Network not recognised'')"
  using assms by (simp add: set_network_def)

lemma set_transformation_unknown:
  assumes "transformation p \<notin> {''DVF'', ''FFD''}"
  shows "set_transformation_model C p
           = Inl (ValueError ''Model: Transformation model not recognised'')"
  using assms by (simp add: set_transformation_model_def)

text \<open>
  Claim C8. A network name outside the four recognised ones makes the constructor of
  \<open>DLRegModel\<close> raise \<open>ValueError\<close>. A transformation name other than \<open>DVF\<close> and \<open>FFD\<close>
  makes it raise too, whatever the rest of the configuration: the constructor never returns
  a model, and once the network has been built the exception is the \<open>ValueError\<close> of the
  transformation step.
\<close>

theorem unknown_tags_raise_ValueError:
  "(network p \<notin> {''SiameseNetDVF'', ''UNetDVF'', ''SiameseNetFFD'', ''FFDNet''} \<longrightarrow>
      DLRegModel_init C p = Inl (ValueError ''Model: Network not recognised''))
   \<and> (transformation p \<notin> {''DVF'', ''FFD''} \<longrightarrow>
      (\<exists>e. DLRegModel_init C p = Inl e)
      \<and> (\<forall>n. set_network C p = Inr n \<longrightarrow>
           DLRegModel_init C p
             = Inl (ValueError ''Model: Transformation model not recognised'')))"
  by (auto simp: DLRegModel_init_def set_network_unknown set_transformation_unknown
           split: sum.splits)

theorem unknown_tags_raise_ValueError_witness:
  "DLRegModel_init
      \<lparr>SiameseNet = Inr (), UNet = (\<lambda>d e c out. Inr ()), SiameseNetFFD = Inr (),
       FFDNet = (\<lambda>d s c e out. Inr ()), DVFTransform = Inr (),
       BSplineFFDTransform = (\<lambda>d s c. Inr ())\<rparr>
      \<lparr>network = ''ResNet'', transformation = ''DVF'', dim = 3, enc_channels = [16, 32],
       dec_channels = [32, 16], out_channels = 3, crop_size = [8, 8, 8], ffd_sigma = [4, 4, 4]\<rparr>
     = Inl (ValueError ''Model: Network not recognised'')
   \<and> DLRegModel_init
      \<lparr>SiameseNet = Inr (), UNet = (\<lambda>d e c out. Inr ()), SiameseNetFFD = Inr (),
       FFDNet = (\<lambda>d s c e out. Inr ()), DVFTransform = Inr (),
       BSplineFFDTransform = (\<lambda>d s c. Inr ())\<rparr>
      \<lparr>network = ''UNetDVF'', transformation = ''Affine'', dim = 3, enc_channels = [16, 32],
       dec_channels = [32, 16], out_channels = 3, crop_size = [8, 8, 8], ffd_sigma = [4, 4, 4]\<rparr>
     = Inl (ValueError ''Model: Transformation model not recognised'')"
  using unknown_tags_raise_ValueError
      [of "\<lparr>network = ''ResNet'', transformation = ''DVF'', dim = 3, enc_channels = [16, 32],
       dec_channels = [32, 16], out_channels = 3, crop_size = [8, 8, 8], ffd_sigma = [4, 4, 4]\<rparr>"
          "\<lparr>SiameseNet = Inr (), UNet = (\<lambda>d e c out. Inr ()), SiameseNetFFD = Inr (),
       FFDNet = (\<lambda>d s c e out. Inr ()), DVFTransform = Inr (),
       BSplineFFDTransform = (\<lambda>d s c. Inr ())\<rparr>"]
    unknown_tags_raise_ValueError
      [of "\<lparr>network = ''UNetDVF'', transformation = ''Affine'', dim = 3, enc_channels = [16, 32],
       dec_channels = [32, 16], out_channels = 3, crop_size = [8, 8, 8], ffd_sigma = [4, 4, 4]\<rparr>"
          "\<lparr>SiameseNet = Inr (), UNet = (\<lambda>d e c out. Inr ()), SiameseNetFFD = Inr (),
       FFDNet = (\<lambda>d s c e out. Inr ()), DVFTransform = Inr (),
       BSplineFFDTransform = (\<lambda>d s c. Inr ())\<rparr>"]
  by (simp add: set_network_def)

section \<open>Huber regularisers\<close>

lemma sqrt_hundredth: "sqrt (1 / 100) = 1 / 10"
  by (simp add: real_sqrt_divide)

lemma vadd_replicate: "vadd (replicate n a) (replicate n b) = replicate n (a + b)"
  by (simp add: vadd_def)

lemma madd_replicate:
  "map2 vadd (replicate h (replicate w a)) (replicate h (replicate w b))
     = replicate h (replicate w (a + b))"
  by (simp add: vadd_replicate)

lemma foldl_madd_replicate:
  "foldl (map2 vadd) (replicate h (replicate w a)) (map (\<lambda>k. replicate h (replicate w (f k))) ks)
     = replicate h (replicate w (a + (\<Sum>k\<leftarrow>ks. f k)))"
  by (induction ks arbitrary: a) (simp_all add: vadd_replicate add.assoc)

lemma norm_constant:
  "ks \<noteq> [] \<Longrightarrow> torch_norm_dim1 (map (\<lambda>k. replicate h (replicate w k)) ks)
     = replicate h (replicate w (sqrt (\<Sum>k\<leftarrow>ks. k\<^sup>2)))"
proof (cases ks)
  case Nil
  then show "ks \<noteq> [] \<Longrightarrow> ?thesis" by simp
next
  case (Cons k ks')
  have "foldl (map2 vadd) (replicate h (replicate w (k\<^sup>2)))
          (map (\<lambda>k. replicate h (replicate w (k\<^sup>2))) ks')
        = replicate h (replicate w (k\<^sup>2 + (\<Sum>k\<leftarrow>ks'. k\<^sup>2)))"
    by (rule foldl_madd_replicate)
  then show ?thesis
    by (simp add: Cons torch_norm_dim1_def sum_mats_def comp_def)
qed

lemma norm_empty: "torch_norm_dim1 [] = []"
  by (simp add: torch_norm_dim1_def sum_mats_def)

lemma butlast_replicate': "butlast (replicate n x) = replicate (n - 1) x"
  by (simp add: butlast_conv_take)

lemma diff_rows_replicate:
  "diff_rows (replicate h (replicate w c)) = replicate (h - 1) (replicate w 0)"
  by (simp add: diff_rows_def butlast_replicate')

lemma diff_cols_replicate:
  "diff_cols (replicate h (replicate w c)) = replicate h (replicate (w - 1) 0)"
  by (simp add: diff_cols_def butlast_replicate')

lemma foldl_vadd_zero:
  "foldl vadd (replicate w 0) (replicate n (replicate w 0)) = replicate w 0"
  by (induction n) (simp_all add: vadd_replicate)

lemma sum_rows_zero: "sum_list (sum_rows (replicate h (replicate w 0))) = 0"
  by (cases h) (simp_all add: sum_rows_def foldl_vadd_zero sum_list_replicate)


lemma spatial_term_constant:
  "sum_list (sum_rows (map2 (map2 (\<lambda>dx dy. dx\<^sup>2 + dy\<^sup>2))
      (map butlast (diff_rows (replicate h (replicate w c))))
      (butlast (diff_cols (replicate h (replicate w c)))))) = 0"
  by (simp add: diff_rows_replicate diff_cols_replicate butlast_replicate' sum_rows_zero)


lemma all_ge_mean:
  assumes "xs \<noteq> []" "\<forall>x\<in>set xs. c \<le> x"
  shows "\<exists>v. mean_list xs = Inr v \<and> c \<le> v"
proof -
  have "c * real (length xs) \<le> sum_list xs"
    using assms(2) by (induction xs) (auto simp: algebra_simps)
  moreover have "0 < real (length xs)" using assms(1) by simp
  ultimately have "c \<le> sum_list xs / real (length xs)"
    by (simp add: pos_le_divide_eq)
  then show ?thesis using assms(1) by (simp add: mean_list_def)
qed

lemma vadd_nonneg:
  "\<forall>v\<in>set r. 0 \<le> v \<Longrightarrow> \<forall>v\<in>set q. 0 \<le> v \<Longrightarrow> \<forall>v\<in>set (vadd r q). 0 \<le> v"
  by (auto simp: vadd_def elim!: in_set_zipE)


lemma foldl_vadd_nonneg:
  "\<forall>v\<in>set r. 0 \<le> v \<Longrightarrow> nonneg_rows rs \<Longrightarrow> \<forall>v\<in>set (foldl vadd r rs). 0 \<le> v"
proof (induction rs arbitrary: r)
  case Nil
  then show ?case by simp
next
  case (Cons q rs)
  from Cons.prems have q: "\<forall>v\<in>set q. 0 \<le> v" and rs: "nonneg_rows rs"
    by (simp_all add: nonneg_rows_def)
  from vadd_nonneg [OF Cons.prems(1) q] Cons.IH rs show ?case by simp
qed

lemma sum_rows_nonneg: "nonneg_rows a \<Longrightarrow> 0 \<le> sum_list (sum_rows a)"
proof (cases a)
  case Nil
  then show ?thesis by (simp add: sum_rows_def)
next
  case (Cons r rs)
  assume "nonneg_rows a"
  with Cons have "\<forall>v\<in>set r. 0 \<le> v" "nonneg_rows rs" by (simp_all add: nonneg_rows_def)
  then have "\<forall>v\<in>set (foldl vadd r rs). 0 \<le> v" by (rule foldl_vadd_nonneg)
  then show ?thesis by (simp add: Cons sum_rows_def sum_list_nonneg)
qed

lemma squares_nonneg_rows:
  "nonneg_rows (map2 (map2 (\<lambda>dx dy. dx\<^sup>2 + dy\<^sup>2)) a b)"
  by (auto simp: nonneg_rows_def elim!: in_set_zipE)

lemma sqrt_eps_le: "0 \<le> t \<Longrightarrow> 1 / 10 \<le> sqrt (1 / 100 + t)"
proof -
  assume "0 \<le> t"
  then have "sqrt (1 / 100) \<le> sqrt (1 / 100 + t)" by simp
  then show ?thesis by (simp add: real_sqrt_divide)
qed

lemma spatial_ge:
  assumes "flow \<noteq> []"
  shows "\<exists>v. huber_loss_spatial flow = Inr v \<and> 1 / 10 \<le> v"
  unfolding huber_loss_spatial_def Let_def
proof (rule all_ge_mean)
  let ?L = "map2 (map2 (map2 (\<lambda>dx dy. dx\<^sup>2 + dy\<^sup>2)))
       (map (map butlast) (map diff_rows (map torch_norm_dim1 flow)))
       (map butlast (map diff_cols (map torch_norm_dim1 flow)))"
  show "map (\<lambda>a. sqrt (1 / 100 + sum_list (sum_rows a))) ?L \<noteq> []"
    using assms by simp
  show "\<forall>x\<in>set (map (\<lambda>a. sqrt (1 / 100 + sum_list (sum_rows a))) ?L). 1 / 10 \<le> x"
  proof
    fix x
    assume "x \<in> set (map (\<lambda>a. sqrt (1 / 100 + sum_list (sum_rows a))) ?L)"
    then obtain a where a: "a \<in> set ?L" and x: "x = sqrt (1 / 100 + sum_list (sum_rows a))"
      by auto
    from a obtain p q where "a = map2 (map2 (\<lambda>dx dy. dx\<^sup>2 + dy\<^sup>2)) p q"
      by (auto elim!: in_set_zipE)
    then have "nonneg_rows a" by (simp only: squares_nonneg_rows)
    then have "0 \<le> sum_list (sum_rows a)" by (rule sum_rows_nonneg)
    then show "1 / 10 \<le> x" unfolding x by (rule sqrt_eps_le)
  qed
qed

lemma spatial_constant:
  assumes "ks \<noteq> []"
  shows "huber_loss_spatial (constant_field ks h w) = Inr (1 / 10)"
proof -
  have tm: "sqrt (1 / 100 + sum_list (sum_rows (map2 (map2 (\<lambda>dx dy. dx\<^sup>2 + dy\<^sup>2))
        (map butlast (diff_rows (torch_norm_dim1 (map (\<lambda>k. replicate h (replicate w k)) cs))))
        (butlast (diff_cols (torch_norm_dim1 (map (\<lambda>k. replicate h (replicate w k)) cs))))))) = 1 / 10" for cs
  proof (cases "cs = []")
    case True
    then show ?thesis
      by (simp add: norm_empty diff_rows_def diff_cols_def sum_rows_def sqrt_hundredth)
  next
    case False
    show ?thesis
      unfolding norm_constant [OF False] spatial_term_constant by (simp add: sqrt_hundredth)
  qed
  have L: "map (\<lambda>a. sqrt (1 / 100 + sum_list (sum_rows a)))
     (map2 (map2 (map2 (\<lambda>dx dy. dx\<^sup>2 + dy\<^sup>2)))
       (map (map butlast) (map diff_rows (map torch_norm_dim1 (constant_field ks h w))))
       (map butlast (map diff_cols (map torch_norm_dim1 (constant_field ks h w)))))
     = replicate (length ks) (1 / 10)"
    by (rule nth_equalityI) (simp_all add: constant_field_def tm)
  show ?thesis unfolding huber_loss_spatial_def Let_def L using assms
    by (simp add: mean_list_def sum_list_replicate)
qed

lemma sumsq_diff_self: "sumsq (map2 (map2 (-)) a a) = 0"
proof -
  have "(\<Sum>d\<leftarrow>map2 (-) r r. d\<^sup>2) = 0" for r :: "real list"
    by (induction r) simp_all
  then show ?thesis unfolding sumsq_def by (induction a) simp_all
qed

lemma temporal_constant: "huber_loss_temporal (replicate n s) = 1 / 10"
proof -
  have "(\<Sum>a\<leftarrow>map2 (map2 (map2 (-))) (replicate k m) (replicate k m). sumsq a) = 0"
    for k and m :: "real list list"
    by (simp add: sumsq_diff_self sum_list_replicate)
  then show ?thesis
    by (simp add: huber_loss_temporal_def Let_def butlast_replicate' sqrt_hundredth)
qed

text \<open>
  Claim C2 does not hold as stated: on a field that is constant over the spatial axes
  \<open>huber_loss_spatial\<close> returns \<open>sqrt eps = 1/10\<close>, not \<open>0\<close>. Here the field has one
  sample, two channels with the values \<open>3\<close> and \<open>4\<close>, and \<open>2 \<times> 2\<close> positions.
\<close>

theorem huber_spatial_constant_counterexample:
  "huber_loss_spatial [[[[3, 3], [3, 3]], [[4, 4], [4, 4]]]] = Inr (1 / 10)
   \<and> huber_loss_spatial [[[[3, 3], [3, 3]], [[4, 4], [4, 4]]]] \<noteq> Inr 0"
  by (simp add: huber_loss_spatial_def torch_norm_dim1_def diff_rows_def diff_cols_def
        sum_rows_def sum_mats_def vadd_def mean_list_def Let_def real_sqrt_divide)

text \<open>
  Claim C2, amended. On every field that is constant over the spatial axes (with at least
  one sample) \<open>huber_loss_spatial\<close> returns exactly \<open>1/10\<close>, the square root of its
  \<open>eps\<close>; on every field that is constant along the batch axis \<open>huber_loss_temporal\<close>
  returns exactly \<open>1/10\<close>; and on every field with at least one sample
  \<open>huber_loss_spatial\<close> returns a number that is at least \<open>1/10\<close>, hence strictly positive.
\<close>

theorem huber_constant_field_value:
  "(ks \<noteq> [] \<longrightarrow> huber_loss_spatial (constant_field ks h w) = Inr (1 / 10))
   \<and> huber_loss_temporal (replicate n s) = 1 / 10
   \<and> (flow \<noteq> [] \<longrightarrow> (\<exists>v. huber_loss_spatial flow = Inr v \<and> 1 / 10 \<le> v \<and> 0 < v))"
proof (intro conjI impI)
  assume "ks \<noteq> []"
  then show "huber_loss_spatial (constant_field ks h w) = Inr (1 / 10)"
    by (rule spatial_constant)
next
  show "huber_loss_temporal (replicate n s) = 1 / 10"
    by (rule temporal_constant)
next
  assume "flow \<noteq> []"
  from spatial_ge [OF this] obtain v where "huber_loss_spatial flow = Inr v" "1 / 10 \<le> v"
    by blast
  moreover from this have "0 < v" by simp
  ultimately show "\<exists>v. huber_loss_spatial flow = Inr v \<and> 1 / 10 \<le> v \<and> 0 < v"
    by blast
qed

theorem huber_constant_field_value_witness:
  "huber_loss_spatial (constant_field [[3, 4], [0, 1]] 3 2) = Inr (1 / 10)
   \<and> huber_loss_temporal (replicate 2 [[[1, 2], [5, 6]], [[3, 4], [7, 8]]]) = 1 / 10
   \<and> (\<exists>v. huber_loss_spatial [[[[0, 1], [0, 0]], [[0, 0], [0, 0]]]] = Inr v
          \<and> 1 / 10 \<le> v \<and> 0 < v)"
  using huber_constant_field_value
    [of "[[3, 4], [0, 1]]" 3 2 2 "[[[1, 2], [5, 6]], [[3, 4], [7, 8]]]"
        "[[[[0, 1], [0, 0]], [[0, 0], [0, 0]]]]"]
  by simp

section \<open>The joint probability table of \<^verbatim>\<open>MILossGaussian\<close>\<close>












lemma default_init: "MILossGaussian_init 0 1 64 False (1 / 10000) True = Inr default_MILossGaussian"
  by (simp add: MILossGaussian_init_def linspace_def default_MILossGaussian_def)





subsection \<open>An input far from every bin centre\<close>

lemma ln2_ge_half: "1 / 2 \<le> ln (2::real)"
proof -
  have "(1 / 2 \<le> ln (2::real)) = (exp (1 / 2) \<le> (2::real))"
    by (rule ln_ge_iff) simp
  with exp_half_le2 show ?thesis by blast
qed



lemma default_sigma_bounds:
  "0 < sigma default_MILossGaussian" "sigma default_MILossGaussian / sqrt (2 * pi) \<le> 1 / 128"
proof -
  have "1 \<le> 2 * ln (2::real)" using ln2_ge_half by simp
  then have s: "1 \<le> sqrt (2 * ln (2::real))" by simp
  show pos: "0 < sigma default_MILossGaussian" by (simp add: default_MILossGaussian_def)
  have "sigma default_MILossGaussian = 1 / (128 * sqrt (2 * ln 2))"
    by (simp add: default_MILossGaussian_def)
  also have "\<dots> \<le> 1 / 128" using s by (simp add: field_simps)
  finally have le: "sigma default_MILossGaussian \<le> 1 / 128" .
  have "1 \<le> 2 * pi" using pi_ge_two by simp
  then have "1 \<le> sqrt (2 * pi)" by simp
  then have "sigma default_MILossGaussian / sqrt (2 * pi) \<le> sigma default_MILossGaussian"
    using pos by (simp add: field_simps)
  with le show "sigma default_MILossGaussian / sqrt (2 * pi) \<le> 1 / 128" by linarith
qed












section \<open>The loss of \<^verbatim>\<open>MILossGaussian.forward\<close>\<close>

lemma map_nth_len: "length xs = k \<Longrightarrow> map (\<lambda>i. f (xs ! i)) [0..<k] = map f xs"
  by (rule nth_equalityI) simp_all

lemma sum_list_index: "(\<Sum>i\<leftarrow>[0..<length xs]. f (xs ! i)) = (\<Sum>x\<leftarrow>xs. f x)"
  by (simp add: map_nth_len)

lemma row_sums_spec: "square p \<Longrightarrow> map sum_list p = spec_target_marginal p"
  unfolding spec_target_marginal_def square_def
  by (rule nth_equalityI) (simp_all add: map_nth_len [where f = "\<lambda>x. x"])

lemma vadd_nth:
  "length r = k \<Longrightarrow> length q = k \<Longrightarrow> vadd r q = map (\<lambda>j. r ! j + q ! j) [0..<k]"
  unfolding vadd_def by (rule nth_equalityI) simp_all

lemma foldl_vadd_nth:
  "length r = k \<Longrightarrow> \<forall>q\<in>set rs. length q = k \<Longrightarrow>
     foldl vadd r rs = map (\<lambda>j. r ! j + (\<Sum>q\<leftarrow>rs. q ! j)) [0..<k]"
proof (induction rs arbitrary: r)
  case Nil
  then show ?case by (simp add: map_nth_len [where f = "\<lambda>x. x"])
next
  case (Cons q rs)
  have "foldl vadd (vadd r q) rs = map (\<lambda>j. vadd r q ! j + (\<Sum>q\<leftarrow>rs. q ! j)) [0..<k]"
    using Cons.prems by (intro Cons.IH) (simp_all add: vadd_def)
  moreover have "vadd r q ! j = r ! j + q ! j" if "j < k" for j
    using Cons.prems that by (simp add: vadd_def)
  ultimately show ?case by (simp add: add.assoc)
qed

lemma sum_rows_nth:
  "\<forall>r\<in>set h. length r = k \<Longrightarrow> h \<noteq> [] \<Longrightarrow> sum_rows h = map (\<lambda>j. \<Sum>r\<leftarrow>h. r ! j) [0..<k]"
  by (cases h) (simp_all add: sum_rows_def foldl_vadd_nth)

lemma col_sums_spec: "square p \<Longrightarrow> sum_rows p = spec_source_marginal p"
proof (cases "p = []")
  case True
  then show ?thesis by (simp add: sum_rows_def spec_source_marginal_def)
next
  case False
  assume "square p"
  then have "sum_rows p = map (\<lambda>j. \<Sum>r\<leftarrow>p. r ! j) [0..<length p]"
    using False by (intro sum_rows_nth) (simp_all add: square_def)
  then show ?thesis
    by (simp add: spec_source_marginal_def sum_list_index [where f = "\<lambda>r. r ! j" for j])
qed

lemma ent_vec_spec: "ent_vec q = spec_entropy q"
  by (simp add: ent_vec_def spec_entropy_def plogp_def [abs_def])

lemma ent_mat_spec: "square p \<Longrightarrow> ent_mat p = spec_joint_entropy p"
proof -
  assume sq: "square p"
  have "(\<Sum>j\<leftarrow>[0..<length p]. plogp (p ! i ! j)) = sum_list (map plogp (p ! i))"
    if "i < length p" for i
    using sq that by (simp add: square_def map_nth_len)
  then have "(\<Sum>i\<leftarrow>[0..<length p]. \<Sum>j\<leftarrow>[0..<length p]. plogp (p ! i ! j))
           = (\<Sum>i\<leftarrow>[0..<length p]. sum_list (map plogp (p ! i)))"
  proof -
    assume "\<And>i. i < length p \<Longrightarrow> (\<Sum>j\<leftarrow>[0..<length p]. plogp (p ! i ! j)) = sum_list (map plogp (p ! i))"
    then have "map (\<lambda>i. \<Sum>j\<leftarrow>[0..<length p]. plogp (p ! i ! j)) [0..<length p]
             = map (\<lambda>i. sum_list (map plogp (p ! i))) [0..<length p]"
      by (intro map_cong refl) simp
    then show ?thesis by (simp only:)
  qed
  also have "\<dots> = (\<Sum>r\<leftarrow>p. sum_list (map plogp r))"
    by (rule sum_list_index)
  finally show ?thesis by (simp add: ent_mat_def spec_joint_entropy_def plogp_def [abs_def])
qed

lemma zip3_map:
  "map2 (\<lambda>(a, b) c. F a b c) (zip (map f P) (map g P)) (map h P) = map (\<lambda>p. F (f p) (g p) (h p)) P"
  by (induction P) simp_all

lemma mi_entropies_spec:
  assumes "\<forall>p\<in>set P. square p"
  shows "mi_entropies nrm P = spec_mi_loss nrm P"
proof -
  have sc: "(if nrm then (ent_vec (map sum_list p) + ent_vec (sum_rows p)) / ent_mat p
             else ent_vec (map sum_list p) + ent_vec (sum_rows p) - ent_mat p)
            = spec_mi_score nrm p" if "p \<in> set P" for p
    using assms that
    by (simp add: spec_mi_score_def Let_def row_sums_spec col_sums_spec ent_vec_spec ent_mat_spec)
  have z: "(0 \<in> set (map ent_mat P)) = (\<exists>p\<in>set P. spec_joint_entropy p = 0)"
    using assms by (auto simp: ent_mat_spec image_iff)
  have L1: "map2 (\<lambda>(ex, ey) ej. (ex + ey) / ej)
              (zip (map ent_vec (map (map sum_list) P)) (map ent_vec (map sum_rows P)))
              (map ent_mat P) = map (spec_mi_score True) P" if nrm
  proof -
    have "map2 (\<lambda>(ex, ey) ej. (ex + ey) / ej)
              (zip (map (\<lambda>p. ent_vec (map sum_list p)) P) (map (\<lambda>p. ent_vec (sum_rows p)) P))
              (map ent_mat P)
          = map (\<lambda>p. (ent_vec (map sum_list p) + ent_vec (sum_rows p)) / ent_mat p) P"
      by (rule zip3_map)
    also have "\<dots> = map (spec_mi_score True) P"
      using sc that by (intro map_cong refl) simp
    finally show ?thesis by (simp add: comp_def)
  qed
  have L2: "map2 (\<lambda>(ex, ey) ej. ex + ey - ej)
              (zip (map ent_vec (map (map sum_list) P)) (map ent_vec (map sum_rows P)))
              (map ent_mat P) = map (spec_mi_score False) P" if "\<not> nrm"
  proof -
    have "map2 (\<lambda>(ex, ey) ej. ex + ey - ej)
              (zip (map (\<lambda>p. ent_vec (map sum_list p)) P) (map (\<lambda>p. ent_vec (sum_rows p)) P))
              (map ent_mat P)
          = map (\<lambda>p. ent_vec (map sum_list p) + ent_vec (sum_rows p) - ent_mat p) P"
      by (rule zip3_map)
    also have "\<dots> = map (spec_mi_score False) P"
      using sc that by (intro map_cong refl) simp
    finally show ?thesis by (simp add: comp_def)
  qed
  show ?thesis
  proof (cases nrm)
    case True
    show ?thesis
      unfolding mi_entropies_def Let_def mi_reduce_def z L1 [OF True]
      using True by (simp add: spec_mi_loss_def mean_list_def)
  next
    case False
    show ?thesis
      unfolding mi_entropies_def Let_def mi_reduce_def L2 [OF False]
      using False by (simp add: spec_mi_loss_def mean_list_def)
  qed
qed

lemma joint_prob_sample_square: "square (joint_prob_sample sg bs xs ys)"
  by (auto simp: square_def joint_prob_sample_def normalise_hist_def Let_def bmm_transpose_def
        parzen_def)

lemma compute_joint_prob_square:
  assumes "fst (compute_joint_prob m x y) = Inr P"
  shows "\<forall>p\<in>set P. square p"
proof -
  from assms have "P = map2 (joint_prob_sample (sigma m) (bvals (bins m))) (tvals x) (tvals y)"
    by (simp add: compute_joint_prob_def Let_def type_as_def split: if_splits)
  then show ?thesis by (auto simp: joint_prob_sample_square)
qed

lemma compute_joint_prob_normalised [simp]:
  "normalised (snd (compute_joint_prob m x y)) = normalised m"
  by (simp add: compute_joint_prob_def Let_def)



text \<open>
  Claim C3. For every pair of inputs, \<open>forward\<close> raises what the region-of-interest
  selection or \<open>_compute_joint_prob\<close> raise, and otherwise returns the loss of the
  specification computed from the joint probability table \<open>P\<close>: the marginal and joint
  entropies with the logarithm guarded by \<open>1e-10\<close>, and the negated batch mean of
  \<open>(H_target + H_source) / H_joint\<close> when \<open>normalised\<close> holds, of
  \<open>H_target + H_source - H_joint\<close> otherwise (not a number for an empty batch, or when a
  joint entropy that is divided by is zero).
\<close>

theorem forward_entropy_formula:
  "fst (forward avg m x y) =
     (case (if roi m then roi_select avg m x y else Inr (x, y)) of
        Inl e \<Rightarrow> Inl e
      | Inr (x', y') \<Rightarrow>
          (case fst (compute_joint_prob m x' y') of
             Inl e \<Rightarrow> Inl e
           | Inr P \<Rightarrow> spec_mi_loss (normalised m) P))"
proof (cases "if roi m then roi_select avg m x y else Inr (x, y)")
  case (Inl e)
  then show ?thesis by (simp add: forward_def)
next
  case (Inr xy)
  obtain x' y' where xy: "xy = (x', y')" by (cases xy)
  obtain r m' where c: "compute_joint_prob m x' y' = (r, m')"
    by (cases "compute_joint_prob m x' y'")
  show ?thesis
  proof (cases r)
    case (Inl e)
    with Inr xy c show ?thesis by (simp add: forward_def)
  next
    case r: (Inr P)
    from c have "normalised m' = normalised m"
      using compute_joint_prob_normalised [of m x' y'] by simp
    moreover from c r have "fst (compute_joint_prob m x' y') = Inr P" by simp
    then have "mi_entropies (normalised m) P = spec_mi_loss (normalised m) P"
      by (intro mi_entropies_spec compute_joint_prob_square)
    ultimately show ?thesis using Inr xy c r by (simp add: forward_def)
  qed
qed

theorem forward_entropy_formula_witness:
  "fst (forward (\<lambda>t k. t) default_MILossGaussian
          \<lparr>ttype = (Float32, Cpu), tvals = [[0, 1 / 2], [1, 1]]\<rparr>
          \<lparr>ttype = (Float32, Cpu), tvals = [[1 / 4, 1 / 2], [0, 1]]\<rparr>)
     = spec_mi_loss True
         [joint_prob_sample (sigma default_MILossGaussian)
            (bvals (bins default_MILossGaussian)) [0, 1 / 2] [1 / 4, 1 / 2],
          joint_prob_sample (sigma default_MILossGaussian)
            (bvals (bins default_MILossGaussian)) [1, 1] [0, 1]]"
proof -
  have c: "fst (compute_joint_prob default_MILossGaussian
          \<lparr>ttype = (Float32, Cpu), tvals = [[0, 1 / 2], [1, 1]]\<rparr>
          \<lparr>ttype = (Float32, Cpu), tvals = [[1 / 4, 1 / 2], [0, 1]]\<rparr>)
     = Inr [joint_prob_sample (sigma default_MILossGaussian)
              (bvals (bins default_MILossGaussian)) [0, 1 / 2] [1 / 4, 1 / 2],
            joint_prob_sample (sigma default_MILossGaussian)
              (bvals (bins default_MILossGaussian)) [1, 1] [0, 1]]"
    using default_sigma_bounds(1)
    by (simp add: compute_joint_prob_def Let_def same_shape_def type_as_def)
  have d: "roi default_MILossGaussian = False" "normalised default_MILossGaussian = True"
    by (simp_all add: default_MILossGaussian_def)
  show ?thesis
    using forward_entropy_formula [of "\<lambda>t k. t" default_MILossGaussian
          "\<lparr>ttype = (Float32, Cpu), tvals = [[0, 1 / 2], [1, 1]]\<rparr>"
          "\<lparr>ttype = (Float32, Cpu), tvals = [[1 / 4, 1 / 2], [0, 1]]\<rparr>"]
    by (simp add: c d)
qed

section \<open>Symmetry of the mutual information loss\<close>






















section \<open>The region-of-interest branch\<close>








section \<open>What a forward call leaves on the module\<close>

lemma debug_init:
  "MILossBSpline_init 0 1 0 1 32 32 1 1 True ''cubic_bspline'' True = Inr debug_MILossBSpline"
  by (simp add: MILossBSpline_init_def debug_MILossBSpline_def Let_def)









section \<open>The local normalised cross-correlation\<close>

lemma length_indices: "length (indices s) = prod_list s"
  by (induction s) (simp_all add: length_concat comp_def sum_list_triv)

lemma indices_length: "idx \<in> set (indices s) \<Longrightarrow> length idx = length s"
  by (induction s arbitrary: idx) auto

lemma sum_list_concat_map:
  "sum_list (map f (concat (map g L))) = (\<Sum>n\<leftarrow>L. sum_list (map f (g n)))"
  by (induction L) simp_all

lemma indices_batch:
  "indices (N # 1 # pos) = concat (map (\<lambda>n. map (\<lambda>idx. n # 0 # idx) (indices pos)) [0..<N])"
  by (simp add: comp_def)

subsection \<open>Cauchy-Schwarz for sums over a list\<close>

lemma sum_list_quadratic:
  "(\<Sum>x\<leftarrow>L. (f x + t * g x)\<^sup>2)
     = (\<Sum>x\<leftarrow>L. (f x)\<^sup>2) + 2 * t * (\<Sum>x\<leftarrow>L. f x * g x) + t\<^sup>2 * (\<Sum>x\<leftarrow>L. (g x)\<^sup>2)"
  for f g :: "'a \<Rightarrow> real"
  by (induction L) (simp_all add: power2_eq_square algebra_simps)

lemma sum_list_squares_nonneg: "0 \<le> (\<Sum>x\<leftarrow>L. (f x)\<^sup>2)" for f :: "'a \<Rightarrow> real"
  by (intro sum_list_nonneg) auto

lemma sum_list_squares_zero:
  "(\<Sum>x\<leftarrow>L. (g x)\<^sup>2) = 0 \<Longrightarrow> (\<Sum>x\<leftarrow>L. f x * g x) = 0" for f g :: "'a \<Rightarrow> real"
proof (induction L)
  case Nil
  then show ?case by simp
next
  case (Cons a L)
  have "0 \<le> (g a)\<^sup>2" "0 \<le> (\<Sum>x\<leftarrow>L. (g x)\<^sup>2)" by (simp_all add: sum_list_squares_nonneg)
  moreover from Cons.prems have "(g a)\<^sup>2 + (\<Sum>x\<leftarrow>L. (g x)\<^sup>2) = 0" by simp
  ultimately have "(g a)\<^sup>2 = 0" "(\<Sum>x\<leftarrow>L. (g x)\<^sup>2) = 0" by linarith+
  with Cons.IH show ?case by simp
qed

lemma cauchy_schwarz_list:
  "(\<Sum>x\<leftarrow>L. f x * g x)\<^sup>2 \<le> (\<Sum>x\<leftarrow>L. (f x)\<^sup>2) * (\<Sum>x\<leftarrow>L. (g x)\<^sup>2)"
  for f g :: "'a \<Rightarrow> real"
proof -
  let ?P = "\<Sum>x\<leftarrow>L. f x * g x" and ?F = "\<Sum>x\<leftarrow>L. (f x)\<^sup>2" and ?G = "\<Sum>x\<leftarrow>L. (g x)\<^sup>2"
  show ?thesis
  proof (cases "?G = 0")
    case True
    then have "?P = 0" by (rule sum_list_squares_zero)
    with True show ?thesis by simp
  next
    case False
    with sum_list_squares_nonneg [of g L] have G: "0 < ?G" by simp
    have "0 \<le> (\<Sum>x\<leftarrow>L. (f x + (- ?P / ?G) * g x)\<^sup>2)" by (rule sum_list_squares_nonneg)
    also have "\<dots> = ?F + 2 * (- ?P / ?G) * ?P + (- ?P / ?G)\<^sup>2 * ?G"
      by (rule sum_list_quadratic)
    also have "\<dots> = ?F - ?P\<^sup>2 / ?G"
      using G by (simp add: power2_eq_square field_simps)
    finally have "?P\<^sup>2 / ?G \<le> ?F" by simp
    then show ?thesis using G by (simp add: pos_divide_le_eq)
  qed
qed

subsection \<open>The score of one window\<close>

lemma centred_cov:
  "(\<Sum>x\<leftarrow>L. a x * b x) - mb * (\<Sum>x\<leftarrow>L. a x) - ma * (\<Sum>x\<leftarrow>L. b x) + ma * mb * real (length L)
     = (\<Sum>x\<leftarrow>L. (a x - ma) * (b x - mb))"
  for a b :: "'a \<Rightarrow> real"
  by (induction L) (simp_all add: algebra_simps)

lemma centred_var:
  "(\<Sum>x\<leftarrow>L. a x * a x) - 2 * ma * (\<Sum>x\<leftarrow>L. a x) + ma * ma * real (length L)
     = (\<Sum>x\<leftarrow>L. (a x - ma)\<^sup>2)"
  for a :: "'a \<Rightarrow> real"
  by (induction L) (simp_all add: algebra_simps power2_eq_square)

lemma window_score_bounds:
  fixes a b :: "'a \<Rightarrow> real"
  assumes cov_def: "cov = (\<Sum>x\<leftarrow>L. a x * b x) - mb * (\<Sum>x\<leftarrow>L. a x) - ma * (\<Sum>x\<leftarrow>L. b x)
                    + ma * mb * real (length L)"
    and va_def: "va = (\<Sum>x\<leftarrow>L. a x * a x) - 2 * ma * (\<Sum>x\<leftarrow>L. a x) + ma * ma * real (length L)"
    and vb_def: "vb = (\<Sum>x\<leftarrow>L. b x * b x) - 2 * mb * (\<Sum>x\<leftarrow>L. b x) + mb * mb * real (length L)"
  shows "0 \<le> va" "0 \<le> vb" "cov\<^sup>2 \<le> va * vb" "va * vb + 1 / 10 ^ 5 \<noteq> 0"
    "0 \<le> cov\<^sup>2 / (va * vb + 1 / 10 ^ 5)" "cov\<^sup>2 / (va * vb + 1 / 10 ^ 5) < 1"
proof -
  have c: "cov = (\<Sum>x\<leftarrow>L. (a x - ma) * (b x - mb))"
    unfolding cov_def by (rule centred_cov)
  have va: "va = (\<Sum>x\<leftarrow>L. (a x - ma)\<^sup>2)" unfolding va_def by (rule centred_var)
  have vb: "vb = (\<Sum>x\<leftarrow>L. (b x - mb)\<^sup>2)" unfolding vb_def by (rule centred_var)
  show a0: "0 \<le> va" unfolding va by (rule sum_list_squares_nonneg)
  show b0: "0 \<le> vb" unfolding vb by (rule sum_list_squares_nonneg)
  show cs: "cov\<^sup>2 \<le> va * vb" unfolding c va vb by (rule cauchy_schwarz_list)
  have pos: "0 < va * vb + 1 / 10 ^ 5" using a0 b0 by (simp add: add_nonneg_pos)
  then show "va * vb + 1 / 10 ^ 5 \<noteq> 0" by simp
  show "0 \<le> cov\<^sup>2 / (va * vb + 1 / 10 ^ 5)" using pos by simp
  have "cov\<^sup>2 < va * vb + 1 / 10 ^ 5" using cs by simp
  then show "cov\<^sup>2 / (va * vb + 1 / 10 ^ 5) < 1" using pos by simp
qed

lemma stride_one: "length idx = d \<Longrightarrow> map2 (\<lambda>i st. i * st) idx (replicate d (Suc 0)) = idx"
  by (rule nth_equalityI) simp_all

lemma zip_map_self: "(p, k) \<in> set (zip (map f w) w) \<Longrightarrow> p = f k"
  by (induction w) auto

lemma kernel_fits:
  fixes sp w :: "nat list"
  assumes "0 \<notin> set sp"
  shows "\<not> (\<exists>(s, p, k)\<in>set (zip sp (zip (map (\<lambda>k. k div 2) w) w)). s + 2 * p < k)"
proof
  assume "\<exists>(s, p, k)\<in>set (zip sp (zip (map (\<lambda>k. k div 2) w) w)). s + 2 * p < k"
  then obtain s p k where z: "(s, p, k) \<in> set (zip sp (zip (map (\<lambda>k. k div 2) w) w))"
    and lt: "s + 2 * p < k" by auto
  from z have "s \<in> set sp" "(p, k) \<in> set (zip (map (\<lambda>k. k div 2) w) w)"
    by (auto dest: set_zip_leftD set_zip_rightD)
  then have "s \<in> set sp" and pk: "p = k div 2"
    using zip_map_self [of p k "\<lambda>k. k div 2" w] by blast+
  with assms have "0 < s" by (metis gr0I)
  moreover note pk
  moreover have "k = 2 * (k div 2) + k mod 2" by simp
  moreover have "k mod 2 < 2" by simp
  ultimately show False using lt by linarith
qed

lemma out_shape:
  assumes "length sp = d" "length w = d"
  shows "map (\<lambda>(s, p, k, st). (s + 2 * p - k) div st + 1)
           (zip sp (zip (map (\<lambda>k. k div 2) w) (zip w (replicate d (1::nat)))))
         = spec_positions sp w"
  unfolding spec_positions_def using assms by (intro nth_equalityI) simp_all

lemma conv_box:
  assumes "vshape v = N # 1 # sp" "length sp = d" "0 \<notin> set sp" "length w = d" "0 \<notin> set w"
  shows "\<exists>out. conv_nd d v (ones (1 # 1 # w)) (replicate d 1) (map (\<lambda>k. k div 2) w) = Inr out
           \<and> vshape out = N # 1 # spec_positions sp w
           \<and> (\<forall>n idx. length idx = d \<longrightarrow>
                 vat out (n # 0 # idx) = spec_local_sum sp w (vat v) n idx)"
proof -
  let ?p = "map (\<lambda>k. k div 2) w"
  let ?out = "\<lparr>vshape = N # 1 # spec_positions sp w,
     vat = conv_entry v (ones (1 # 1 # w)) (replicate d 1) ?p 1 w\<rparr>"
  have "conv_nd d v (ones (1 # 1 # w)) (replicate d 1) ?p = Inr ?out"
    using assms kernel_fits [OF assms(3), of w] out_shape [OF assms(2,4)]
    by (simp add: conv_nd_def ones_def)
  moreover have "vat ?out (n # 0 # idx) = spec_local_sum sp w (vat v) n idx"
    if "length idx = d" for n idx
    using assms(1)
    by (simp add: conv_entry_def stride_one [OF that] ones_def pad_at_def spec_local_sum_def window_value_def
          Let_def cong: if_cong)
  ultimately show ?thesis by (intro exI [of _ ?out]) simp
qed

lemma window_value_mult:
  "window_value sp w (\<lambda>i. t i * s i) n idx off
     = window_value sp w t n idx off * window_value sp w s n idx off"
  by (simp add: window_value_def Let_def)

lemma local_sum_mult:
  "spec_local_sum sp w (\<lambda>i. t i * s i) n idx
     = (\<Sum>off\<leftarrow>indices w. window_value sp w t n idx off * window_value sp w s n idx off)"
  by (simp add: spec_local_sum_def window_value_mult)

lemma spec_score_bounds:
  "0 \<le> spec_lncc_score sp w t s n idx" "spec_lncc_score sp w t s n idx < 1"
proof -
  let ?L = "indices w"
  let ?a = "window_value sp w t n idx" and ?b = "window_value sp w s n idx"
  let ?ma = "spec_local_sum sp w t n idx / real (prod_list w)"
  let ?mb = "spec_local_sum sp w s n idx / real (prod_list w)"
  define cov where "cov = (\<Sum>x\<leftarrow>?L. ?a x * ?b x) - ?mb * (\<Sum>x\<leftarrow>?L. ?a x) - ?ma * (\<Sum>x\<leftarrow>?L. ?b x)
                    + ?ma * ?mb * real (length ?L)"
  define va where "va = (\<Sum>x\<leftarrow>?L. ?a x * ?a x) - 2 * ?ma * (\<Sum>x\<leftarrow>?L. ?a x) + ?ma * ?ma * real (length ?L)"
  define vb where "vb = (\<Sum>x\<leftarrow>?L. ?b x * ?b x) - 2 * ?mb * (\<Sum>x\<leftarrow>?L. ?b x) + ?mb * ?mb * real (length ?L)"
  have sc: "spec_lncc_score sp w t s n idx = cov\<^sup>2 / (va * vb + 1 / 10 ^ 5)"
    unfolding spec_lncc_score_def Let_def local_sum_mult cov_def va_def vb_def length_indices
    by (simp add: spec_local_sum_def)
  show "0 \<le> spec_lncc_score sp w t s n idx" "spec_lncc_score sp w t s n idx < 1"
    unfolding sc using window_score_bounds(5,6) [OF cov_def va_def vb_def] by blast+
qed

lemma spec_score_denominator:
  "(spec_local_sum sp w (\<lambda>i. t i * t i) n idx
      - 2 * (spec_local_sum sp w t n idx / real (prod_list w)) * spec_local_sum sp w t n idx
      + spec_local_sum sp w t n idx / real (prod_list w)
        * (spec_local_sum sp w t n idx / real (prod_list w)) * real (prod_list w))
   * (spec_local_sum sp w (\<lambda>i. s i * s i) n idx
      - 2 * (spec_local_sum sp w s n idx / real (prod_list w)) * spec_local_sum sp w s n idx
      + spec_local_sum sp w s n idx / real (prod_list w)
        * (spec_local_sum sp w s n idx / real (prod_list w)) * real (prod_list w))
   + 1 / 10 ^ 5 \<noteq> 0"
proof -
  let ?L = "indices w"
  let ?a = "window_value sp w t n idx" and ?b = "window_value sp w s n idx"
  let ?ma = "spec_local_sum sp w t n idx / real (prod_list w)"
  let ?mb = "spec_local_sum sp w s n idx / real (prod_list w)"
  define cov where "cov = (\<Sum>x\<leftarrow>?L. ?a x * ?b x) - ?mb * (\<Sum>x\<leftarrow>?L. ?a x) - ?ma * (\<Sum>x\<leftarrow>?L. ?b x)
                    + ?ma * ?mb * real (length ?L)"
  define va where "va = (\<Sum>x\<leftarrow>?L. ?a x * ?a x) - 2 * ?ma * (\<Sum>x\<leftarrow>?L. ?a x) + ?ma * ?ma * real (length ?L)"
  define vb where "vb = (\<Sum>x\<leftarrow>?L. ?b x * ?b x) - 2 * ?mb * (\<Sum>x\<leftarrow>?L. ?b x) + ?mb * ?mb * real (length ?L)"
  have "va * vb + 1 / 10 ^ 5 \<noteq> 0"
    by (rule window_score_bounds(4) [OF cov_def va_def vb_def])
  then show ?thesis
    unfolding va_def vb_def local_sum_mult length_indices by (simp add: spec_local_sum_def)
qed

lemma param_dim_setup_length:
  "param_dim_setup wsz (int d) = Inr ws \<Longrightarrow> length ws = d"
  by (auto simp: param_dim_setup_def split: window_spec.splits if_splits)

lemma prod_list_nat: "\<forall>k\<in>set ws. 0 < k \<Longrightarrow> real_of_int (prod_list ws) = real (prod_list (map nat ws))"
  by (induction ws) simp_all

lemma prod_list_pos: "0 \<notin> set (w :: nat list) \<Longrightarrow> 0 < prod_list w"
  by (induction w) simp_all

lemma padding_nat: "\<forall>k\<in>set ws. 0 < k \<Longrightarrow> map (\<lambda>k. nat (k div 2)) ws = map (\<lambda>k. k div 2) (map nat ws)"
  by (induction ws) (simp_all add: nat_div_distrib)

lemma positions_pos: "0 \<notin> set (spec_positions sp w)"
  by (auto simp: spec_positions_def elim!: in_set_zipE)

lemma batch_index:
  assumes "i \<in> set (indices (N # 1 # pos))"
  obtains n idx where "i = n # 0 # idx" "n < N" "idx \<in> set (indices pos)"
  using assms by (auto simp: comp_def)

lemma LNCC_forward_unfold:
  assumes sh: "vshape tar = N # 1 # sp" "vshape src = N # 1 # sp"
    and rank: "length sp \<in> {1, 2, 3}" and ne: "0 \<notin> set sp"
    and win: "param_dim_setup (window_size m) (int (length sp)) = Inr ws" "\<forall>k\<in>set ws. 0 < k"
  shows "\<exists>o1 o2 o3 o4 o5.
     LNCC_forward m tar src =
       (if lncc_undefined (real (prod_list (map nat ws))) o1 o2 o3 o4 then Inl NotFinite
        else then_do (vmean (lncc_map (real (prod_list (map nat ws))) o1 o2 o3 o4 o5))
               (\<lambda>v. Inr (- v)))
     \<and> vshape o1 = N # 1 # spec_positions sp (map nat ws)
     \<and> (\<forall>n idx. length idx = length sp \<longrightarrow>
           vat o1 (n # 0 # idx) = spec_local_sum sp (map nat ws) (vat tar) n idx
         \<and> vat o2 (n # 0 # idx) = spec_local_sum sp (map nat ws) (vat src) n idx
         \<and> vat o3 (n # 0 # idx) = spec_local_sum sp (map nat ws) (\<lambda>i. vat tar i * vat tar i) n idx
         \<and> vat o4 (n # 0 # idx) = spec_local_sum sp (map nat ws) (\<lambda>i. vat src i * vat src i) n idx
         \<and> vat o5 (n # 0 # idx) = spec_local_sum sp (map nat ws) (\<lambda>i. vat tar i * vat src i) n idx)"
proof -
  let ?d = "length sp" and ?w = "map nat ws"
  have lw: "length ?w = ?d" using param_dim_setup_length [OF win(1)] by simp
  have w0: "0 \<notin> set ?w" using win(2) by auto
  have cf: "conv_fn (int ?d) = Inr (conv_nd ?d)" using rank by (auto simp: conv_fn_def)
  have neg: "\<not> (\<exists>w\<in>set ws. w < 0)" using win(2) by force
  have box: "\<exists>out. conv_nd ?d v (ones (1 # 1 # ?w)) (replicate ?d 1) (map (\<lambda>k. k div 2) ?w) = Inr out
           \<and> vshape out = N # 1 # spec_positions sp ?w
           \<and> (\<forall>n idx. length idx = ?d \<longrightarrow>
                 vat out (n # 0 # idx) = spec_local_sum sp ?w (vat v) n idx)"
    if "vshape v = N # 1 # sp" for v
    using that refl ne lw w0 by (rule conv_box)
  obtain o1 where o1: "conv_nd ?d tar (ones (1 # 1 # ?w)) (replicate ?d 1) (map (\<lambda>k. k div 2) ?w) = Inr o1"
      "vshape o1 = N # 1 # spec_positions sp ?w"
      "\<forall>n idx. length idx = ?d \<longrightarrow> vat o1 (n # 0 # idx) = spec_local_sum sp ?w (vat tar) n idx"
    using box [of tar] sh by blast
  obtain o2 where o2: "conv_nd ?d src (ones (1 # 1 # ?w)) (replicate ?d 1) (map (\<lambda>k. k div 2) ?w) = Inr o2"
      "\<forall>n idx. length idx = ?d \<longrightarrow> vat o2 (n # 0 # idx) = spec_local_sum sp ?w (vat src) n idx"
    using box [of src] sh by blast
  obtain o3 where o3: "conv_nd ?d (vmul tar tar) (ones (1 # 1 # ?w)) (replicate ?d 1) (map (\<lambda>k. k div 2) ?w) = Inr o3"
      "\<forall>n idx. length idx = ?d \<longrightarrow> vat o3 (n # 0 # idx) = spec_local_sum sp ?w (vat (vmul tar tar)) n idx"
    using box [of "vmul tar tar"] sh by (auto simp: vmul_def)
  obtain o4 where o4: "conv_nd ?d (vmul src src) (ones (1 # 1 # ?w)) (replicate ?d 1) (map (\<lambda>k. k div 2) ?w) = Inr o4"
      "\<forall>n idx. length idx = ?d \<longrightarrow> vat o4 (n # 0 # idx) = spec_local_sum sp ?w (vat (vmul src src)) n idx"
    using box [of "vmul src src"] sh by (auto simp: vmul_def)
  obtain o5 where o5: "conv_nd ?d (vmul tar src) (ones (1 # 1 # ?w)) (replicate ?d 1) (map (\<lambda>k. k div 2) ?w) = Inr o5"
      "\<forall>n idx. length idx = ?d \<longrightarrow> vat o5 (n # 0 # idx) = spec_local_sum sp ?w (vat (vmul tar src)) n idx"
    using box [of "vmul tar src"] sh by (auto simp: vmul_def)
  have "LNCC_forward m tar src =
       (if lncc_undefined (real (prod_list ?w)) o1 o2 o3 o4 then Inl NotFinite
        else then_do (vmean (lncc_map (real (prod_list ?w)) o1 o2 o3 o4 o5)) (\<lambda>v. Inr (- v)))"
    using sh win(1) neg cf o1(1) o2(1) o3(1) o4(1) o5(1)
    by (simp add: LNCC_forward_def Let_def then_do_def padding_nat [OF win(2)]
          prod_list_nat [OF win(2)])
  moreover have "vat (vmul a b) = (\<lambda>i. vat a i * vat b i)" for a b by (simp add: vmul_def)
  ultimately show ?thesis using o1(2,3) o2(2) o3(2) o4(2) o5(2) by (intro exI [of _ o1] exI [of _ o2] exI [of _ o3] exI [of _ o4] exI [of _ o5]) simp
qed

lemma sum_list_concat_rows: "sum_list (concat xss) = (\<Sum>xs\<leftarrow>xss. sum_list (xs :: real list))"
  by (induction xss) simp_all

lemma length_positions: "length sp = d \<Longrightarrow> length w = d \<Longrightarrow> length (spec_positions sp w) = d"
  by (simp add: spec_positions_def)

lemma lncc_map_at:
  assumes "vat o1 i = spec_local_sum sp w t n idx"
    and "vat o2 i = spec_local_sum sp w s n idx"
    and "vat o3 i = spec_local_sum sp w (\<lambda>i. t i * t i) n idx"
    and "vat o4 i = spec_local_sum sp w (\<lambda>i. s i * s i) n idx"
    and "vat o5 i = spec_local_sum sp w (\<lambda>i. t i * s i) n idx"
  shows "vat (lncc_map (real (prod_list w)) o1 o2 o3 o4 o5) i = spec_lncc_score sp w t s n idx"
  by (simp add: lncc_map_def spec_lncc_score_def Let_def assms power2_eq_square)

lemma LNCC_forward_spec:
  assumes sh: "vshape tar = N # 1 # sp" "vshape src = N # 1 # sp"
    and rank: "length sp \<in> {1, 2, 3}" and ne: "0 < N" "0 \<notin> set sp"
    and win: "param_dim_setup (window_size m) (int (length sp)) = Inr ws" "\<forall>k\<in>set ws. 0 < k"
  shows "LNCC_forward m tar src
           = Inr (spec_lncc_loss N sp (map nat ws) (vat tar) (vat src))"
proof -
  let ?w = "map nat ws" and ?t = "vat tar" and ?s = "vat src"
  let ?pos = "spec_positions sp ?w"
  let ?Nw = "real (prod_list ?w)"
  from LNCC_forward_unfold [OF sh rank ne(2) win] obtain o1 o2 o3 o4 o5 where
    fw: "LNCC_forward m tar src =
       (if lncc_undefined ?Nw o1 o2 o3 o4 then Inl NotFinite
        else then_do (vmean (lncc_map ?Nw o1 o2 o3 o4 o5)) (\<lambda>v. Inr (- v)))"
    and sh1: "vshape o1 = N # 1 # ?pos"
    and at: "\<And>n idx. length idx = length sp \<Longrightarrow>
           vat o1 (n # 0 # idx) = spec_local_sum sp ?w ?t n idx
         \<and> vat o2 (n # 0 # idx) = spec_local_sum sp ?w ?s n idx
         \<and> vat o3 (n # 0 # idx) = spec_local_sum sp ?w (\<lambda>i. ?t i * ?t i) n idx
         \<and> vat o4 (n # 0 # idx) = spec_local_sum sp ?w (\<lambda>i. ?s i * ?s i) n idx
         \<and> vat o5 (n # 0 # idx) = spec_local_sum sp ?w (\<lambda>i. ?t i * ?s i) n idx"
    by blast
  have lw: "length ?w = length sp" using param_dim_setup_length [OF win(1)] by simp
  have lp: "length ?pos = length sp" using lw by (simp add: length_positions)
  have w0: "0 \<notin> set ?w" using win(2) by auto
  have Nw: "?Nw \<noteq> 0" using prod_list_pos [OF w0] by simp
  have len: "length idx = length sp" if "idx \<in> set (indices ?pos)" for idx
    using indices_length [OF that] lp by simp
  have undefined: "\<not> lncc_undefined ?Nw o1 o2 o3 o4"
  proof -
    have "(vat o3 i - 2 * (vat o1 i / ?Nw) * vat o1 i + vat o1 i / ?Nw * (vat o1 i / ?Nw) * ?Nw)
          * (vat o4 i - 2 * (vat o2 i / ?Nw) * vat o2 i + vat o2 i / ?Nw * (vat o2 i / ?Nw) * ?Nw)
          + 1 / 10 ^ 5 \<noteq> 0" if "i \<in> set (indices (N # 1 # ?pos))" for i
    proof -
      from that obtain n idx where i: "i = n # 0 # idx" and "idx \<in> set (indices ?pos)"
        by (rule batch_index)
      then have "length idx = length sp" by (simp add: len)
      from at [OF this, of n] show ?thesis
        unfolding i using spec_score_denominator [of sp ?w ?t n idx ?s] by simp
    qed
    then show ?thesis
      unfolding lncc_undefined_def Let_def sh1 using Nw by blast
  qed
  have scores: "map (vat (lncc_map ?Nw o1 o2 o3 o4 o5)) (indices (N # 1 # ?pos))
        = concat (map (\<lambda>n. map (spec_lncc_score sp ?w ?t ?s n) (indices ?pos)) [0..<N])"
  proof -
    have inner: "map (\<lambda>idx. vat (lncc_map ?Nw o1 o2 o3 o4 o5) (n # 0 # idx)) (indices ?pos)
          = map (spec_lncc_score sp ?w ?t ?s n) (indices ?pos)" for n
      using at len by (intro map_cong refl) (simp add: lncc_map_at)
    show ?thesis
      unfolding indices_batch map_concat by (simp add: comp_def inner)
  qed
  have total_len: "length (concat (map (\<lambda>n. map (spec_lncc_score sp ?w ?t ?s n) (indices ?pos)) [0..<N]))
        = N * prod_list ?pos"
    by (simp add: length_concat comp_def length_indices sum_list_triv)
  have "0 < N * prod_list ?pos"
    using ne(1) prod_list_pos [OF positions_pos, of sp ?w] by simp
  then have nonempty: "concat (map (\<lambda>n. map (spec_lncc_score sp ?w ?t ?s n) (indices ?pos)) [0..<N]) \<noteq> []"
    using total_len by (metis length_0_conv less_numeral_extra(3))
  have sum: "sum_list (concat (map (\<lambda>n. map (spec_lncc_score sp ?w ?t ?s n) (indices ?pos)) [0..<N]))
        = (\<Sum>n\<leftarrow>[0..<N]. \<Sum>idx\<leftarrow>indices ?pos. spec_lncc_score sp ?w ?t ?s n idx)"
    by (simp add: sum_list_concat_rows comp_def)
  have "vmean (lncc_map ?Nw o1 o2 o3 o4 o5)
        = Inr ((\<Sum>n\<leftarrow>[0..<N]. \<Sum>idx\<leftarrow>indices ?pos. spec_lncc_score sp ?w ?t ?s n idx)
               / real (N * prod_list ?pos))"
    unfolding vmean_def
    using nonempty scores sh1 total_len sum by (simp add: mean_list_def lncc_map_def)
  then show ?thesis
    unfolding fw using undefined by (simp add: then_do_def spec_lncc_loss_def)
qed

lemma sum_list_strict_bounds:
  fixes f :: "'a \<Rightarrow> real"
  assumes "L \<noteq> []" "\<And>x. x \<in> set L \<Longrightarrow> 0 \<le> f x \<and> f x < c"
  shows "0 \<le> (\<Sum>x\<leftarrow>L. f x)" "(\<Sum>x\<leftarrow>L. f x) < c * real (length L)"
proof -
  show "0 \<le> (\<Sum>x\<leftarrow>L. f x)" using assms(2) by (intro sum_list_nonneg) auto
  show "(\<Sum>x\<leftarrow>L. f x) < c * real (length L)"
    using assms
  proof (induction L rule: list_nonempty_induct)
    case (single x)
    then show ?case by simp
  next
    case (cons x xs)
    then have "f x < c" "(\<Sum>x\<leftarrow>xs. f x) < c * real (length xs)" by simp_all
    then show ?case by (simp add: algebra_simps)
  qed
qed

lemma spec_lncc_loss_bounds:
  assumes "0 < N"
  shows "- 1 < spec_lncc_loss N sp w t s" "spec_lncc_loss N sp w t s \<le> 0"
proof -
  let ?pos = "spec_positions sp w"
  let ?P = "real (prod_list ?pos)"
  let ?inner = "\<lambda>n. \<Sum>idx\<leftarrow>indices ?pos. spec_lncc_score sp w t s n idx"
  have P: "0 < prod_list ?pos" by (rule prod_list_pos [OF positions_pos])
  then have ne: "indices ?pos \<noteq> []" using length_indices [of ?pos] by (metis length_0_conv less_numeral_extra(3))
  have inner: "0 \<le> ?inner n \<and> ?inner n < ?P" for n
    using sum_list_strict_bounds [OF ne, of "spec_lncc_score sp w t s n" 1]
      spec_score_bounds [of sp w t s n]
    by (simp add: length_indices)
  have neN: "[0..<N] \<noteq> []" using assms by simp
  have outer: "0 \<le> (\<Sum>n\<leftarrow>[0..<N]. ?inner n)" "(\<Sum>n\<leftarrow>[0..<N]. ?inner n) < ?P * real (length [0..<N])"
    using sum_list_strict_bounds [OF neN, of ?inner ?P] inner by blast+
  have cnt: "0 < real (N * prod_list ?pos)" using assms P by simp
  have lt: "(\<Sum>n\<leftarrow>[0..<N]. ?inner n) < real (N * prod_list ?pos)"
    using outer(2) by (simp add: mult.commute)
  have "(\<Sum>n\<leftarrow>[0..<N]. ?inner n) / real (N * prod_list ?pos) < 1"
    using lt cnt by (simp only: divide_less_eq_1_pos)
  moreover have "0 \<le> (\<Sum>n\<leftarrow>[0..<N]. ?inner n) / real (N * prod_list ?pos)"
    using outer(1) cnt by (simp only: zero_le_divide_iff) simp
  ultimately show "- 1 < spec_lncc_loss N sp w t s" "spec_lncc_loss N sp w t s \<le> 0"
    unfolding spec_lncc_loss_def by linarith+
qed

text \<open>
  Claim C4. For a target and a source of one shape \<open>(N, 1, *sp)\<close> with two or three
  spatial axes (no empty axis, at least one sample) and a positive window size for every
  axis, \<open>LNCCLoss.forward\<close> returns the loss of the specification: local sums by a box
  filter with unit weights, stride one and padding \<open>floor (w / 2)\<close>, the covariance
  \<open>Sts - mu_s * St - mu_t * Ss + mu_t * mu_s * N\<close> and the variances formed in the same
  way, the score \<open>cov\<^sup>2 / (var_t * var_s + 1e-5)\<close>, and the negated mean of the score over
  all positions of the score map and all samples.
\<close>

theorem LNCC_forward_formula:
  assumes "vshape tar = N # 1 # sp" and "vshape src = N # 1 # sp"
    and "length sp = 2 \<or> length sp = 3" and "0 < N" and "0 \<notin> set sp"
    and "param_dim_setup (window_size m) (int (length sp)) = Inr ws" and "\<forall>k\<in>set ws. 0 < k"
  shows "LNCC_forward m tar src
           = Inr (spec_lncc_loss N sp (map nat ws) (vat tar) (vat src))"
proof -
  from assms(3) have "length sp \<in> {1, 2, 3}" by auto
  with assms show ?thesis by (intro LNCC_forward_spec)
qed

theorem LNCC_forward_formula_witness:
  "LNCC_forward \<lparr>window_size = Scalar 7\<rparr>
      \<lparr>vshape = [2, 1, 3, 4], vat = (\<lambda>i. real (sum_list i))\<rparr>
      \<lparr>vshape = [2, 1, 3, 4], vat = (\<lambda>i. 1)\<rparr>
     = Inr (spec_lncc_loss 2 [3, 4] [7, 7] (\<lambda>i. real (sum_list i)) (\<lambda>i. 1))"
proof -
  have p: "param_dim_setup (window_size \<lparr>window_size = Scalar 7\<rparr>) (int (length [3::nat, 4]))
             = Inr [7, 7]"
    by (simp add: param_dim_setup_def numeral_2_eq_2)
  show ?thesis
    using LNCC_forward_formula [where m = "\<lparr>window_size = Scalar 7\<rparr>"
        and tar = "\<lparr>vshape = [2, 1, 3, 4], vat = (\<lambda>i. real (sum_list i))\<rparr>"
        and src = "\<lparr>vshape = [2, 1, 3, 4], vat = (\<lambda>i. 1)\<rparr>"
        and N = 2 and sp = "[3, 4]" and ws = "[7, 7]", OF _ _ _ _ _ p]
    by simp
qed

text \<open>
  Claim C9. Under the same conditions the value returned by \<open>LNCCLoss.forward\<close> lies in
  \<open>(-1, 0]\<close>: the local sums run over exactly \<open>N\<close> padded values, so covariance and
  variances are sums of centred products, each score is non-negative and, by the
  Cauchy-Schwarz inequality and the \<open>1e-5\<close> in the denominator, below one.
\<close>

theorem LNCC_forward_range:
  assumes "vshape tar = N # 1 # sp" and "vshape src = N # 1 # sp"
    and "length sp = 2 \<or> length sp = 3" and "0 < N" and "0 \<notin> set sp"
    and "param_dim_setup (window_size m) (int (length sp)) = Inr ws" and "\<forall>k\<in>set ws. 0 < k"
  shows "\<exists>v. LNCC_forward m tar src = Inr v \<and> - 1 < v \<and> v \<le> 0"
proof -
  from assms(3) have "length sp \<in> {1, 2, 3}" by auto
  with assms have "LNCC_forward m tar src
           = Inr (spec_lncc_loss N sp (map nat ws) (vat tar) (vat src))"
    by (intro LNCC_forward_spec)
  with spec_lncc_loss_bounds [OF assms(4)] show ?thesis by blast
qed

theorem LNCC_forward_range_witness:
  "\<exists>v. LNCC_forward \<lparr>window_size = Tuple [3, 3, 3]\<rparr>
      \<lparr>vshape = [1, 1, 2, 2, 2], vat = (\<lambda>i. real (sum_list i))\<rparr>
      \<lparr>vshape = [1, 1, 2, 2, 2], vat = (\<lambda>i. real (prod_list i))\<rparr> = Inr v
     \<and> - 1 < v \<and> v \<le> 0"
proof -
  have p: "param_dim_setup (window_size \<lparr>window_size = Tuple [3, 3, 3]\<rparr>)
             (int (length [2::nat, 2, 2])) = Inr [3, 3, 3]"
    by (simp add: param_dim_setup_def)
  show ?thesis
    using LNCC_forward_range [where m = "\<lparr>window_size = Tuple [3, 3, 3]\<rparr>"
        and tar = "\<lparr>vshape = [1, 1, 2, 2, 2], vat = (\<lambda>i. real (sum_list i))\<rparr>"
        and src = "\<lparr>vshape = [1, 1, 2, 2, 2], vat = (\<lambda>i. real (prod_list i))\<rparr>"
        and N = 1 and sp = "[2, 2, 2]" and ws = "[3, 3, 3]", OF _ _ _ _ _ p]
    by simp
qed

end
